theory Spec2Isabelle
  imports Main "HOL-Library.Word"
begin

section \<open>Errors\<close>

text \<open>
  A Go \<open>error\<close> is \<open>error option\<close>: \<open>None\<close> is the nil error. The constructors are
  the errors this package can return:
  \<^item> \<open>Foreign msg\<close>: an error made outside the package (the GitHub client, the body
    callback, \<open>url.Parse\<close>), known by its message;
  \<^item> \<open>ErrSyntax s\<close>, \<open>ErrRange s\<close>: the \<open>strconv.NumError\<close> of \<open>strconv.Atoi\<close> on \<open>s\<close>;
  \<^item> \<open>TooFewPathElements n\<close>:
    \<^verbatim>\<open>fmt.Errorf("too few path elements in pull-request URL (got %d, want 4)", n)\<close>;
  \<^item> \<open>NotExpectedFormat\<close>: \<^verbatim>\<open>fmt.Errorf("pull-request URL not in expected format")\<close>;
  \<^item> \<open>Wrapped e msg\<close>: \<open>errors.Wrap(e, msg)\<close> for a non-nil \<open>e\<close>.
\<close>

datatype error =
    Foreign string
  | ErrSyntax string
  | ErrRange string
  | TooFewPathElements nat
  | NotExpectedFormat
  | Wrapped error string

text \<open>\<open>errors.Wrap\<close> of github.com/bobg/errors: nil stays nil, any other error is wrapped.\<close>

fun Wrap :: "error option \<Rightarrow> string \<Rightarrow> error option" where
  "Wrap None msg = None"
| "Wrap (Some e) msg = Some (Wrapped e msg)"

section \<open>The Commenter\<close>

text \<open>
  \<open>github.IssueComment\<close>: every field is a pointer, \<open>None\<close> is nil. Only \<open>ID\<close> (\<open>*int64\<close>)
  and \<open>Body\<close> (\<open>*string\<close>) are read or written by this package.
\<close>

record IssueComment =
  ID :: "64 word option"
  Body :: "string option"

text \<open>
  The collaborators of a \<open>Commenter\<close> are calls into the outside world. Each takes the
  world \<open>'w\<close> (the remote service and whatever else the call can change) and returns
  its result with the new world; a result is \<open>Inl e\<close> for a non-nil error and \<open>Inr v\<close>
  otherwise. The \<open>context.Context\<close> and the \<open>*github.Response\<close>, which \<open>AddOrUpdate\<close>
  passes on or drops, are left out, as is the constant \<open>nil\<close> options argument of
  \<open>ListComments\<close>. \<open>'pr\<close> is \<open>*github.PullRequest\<close>, which \<open>AddOrUpdate\<close> hands to \<open>body\<close>
  unopened. \<open>IsComment\<close> is \<open>None\<close> for a nil function; a matcher is a predicate on
  \<open>*github.IssueComment\<close> (the elements of \<open>[]*github.IssueComment\<close>, \<open>None\<close> for nil).
\<close>

record ('w, 'pr) Commenter =
  IsComment :: "(IssueComment option \<Rightarrow> bool) option"
  body :: "'w \<Rightarrow> 'pr \<Rightarrow> (error + string) \<times> 'w"
  prs_Get :: "'w \<Rightarrow> string \<Rightarrow> string \<Rightarrow> int \<Rightarrow> (error + 'pr) \<times> 'w"
  issues_CreateComment :: "'w \<Rightarrow> string \<Rightarrow> string \<Rightarrow> int \<Rightarrow> IssueComment \<Rightarrow> error option \<times> 'w"
  issues_EditComment :: "'w \<Rightarrow> string \<Rightarrow> string \<Rightarrow> 64 word \<Rightarrow> IssueComment \<Rightarrow> error option \<times> 'w"
  issues_ListComments :: "'w \<Rightarrow> string \<Rightarrow> string \<Rightarrow> int \<Rightarrow> (error + IssueComment option list) \<times> 'w"

text \<open>The calls \<open>AddOrUpdate\<close> makes, with their arguments, in the order it makes them.\<close>

datatype 'pr call =
    Call_Get string string int
  | Call_body 'pr
  | Call_ListComments string string int
  | Call_IsComment "IssueComment option"
  | Call_EditComment string string "64 word" IssueComment
  | Call_CreateComment string string int IssueComment

text \<open>
  An invocation either returns its error value or panics: \<open>*comment.ID\<close> is a nil-pointer
  dereference when \<open>comment\<close> or \<open>comment.ID\<close> is nil.
\<close>

datatype outcome = Return "error option" | Panic

text \<open>
  The \<open>for _, comment := range comments\<close> loop of \<open>AddOrUpdate\<close>, with the matcher \<open>f\<close>
  non-nil. It gives the calls made and, when the loop body returned (or panicked), the
  outcome and the world; \<open>None\<close> when the loop ran off the end of the list.
\<close>

fun for_comments ::
  "('w, 'pr) Commenter \<Rightarrow> (IssueComment option \<Rightarrow> bool) \<Rightarrow> 'w \<Rightarrow> string \<Rightarrow> string \<Rightarrow>
   IssueComment \<Rightarrow> IssueComment option list \<Rightarrow> 'pr call list \<times> (outcome \<times> 'w) option" where
  "for_comments c f w owner reponame issueComment [] = ([], None)"
| "for_comments c f w owner reponame issueComment (comment # comments) =
     (if f comment then
        (case comment of
           None \<Rightarrow> ([Call_IsComment comment], Some (Panic, w))
         | Some cm \<Rightarrow>
             (case ID cm of
                None \<Rightarrow> ([Call_IsComment comment], Some (Panic, w))
              | Some i \<Rightarrow>
                  (case issues_EditComment c w owner reponame i issueComment of
                     (err, w') \<Rightarrow>
                       ([Call_IsComment comment, Call_EditComment owner reponame i issueComment],
                        Some (Return (Wrap err ''updating PR comment''), w')))))
      else
        (case for_comments c f w owner reponame issueComment comments of
           (calls, r) \<Rightarrow> (Call_IsComment comment # calls, r)))"

definition AddOrUpdate ::
  "('w, 'pr) Commenter \<Rightarrow> 'w \<Rightarrow> string \<Rightarrow> string \<Rightarrow> int \<Rightarrow> outcome \<times> 'w \<times> 'pr call list" where
  "AddOrUpdate c w owner reponame prnum =
     (case prs_Get c w owner reponame prnum of
        (Inl err, w1) \<Rightarrow>
          (Return (Wrap (Some err) ''getting pull request''), w1, [Call_Get owner reponame prnum])
      | (Inr pr, w1) \<Rightarrow>
          (case body c w1 pr of
             (Inl err, w2) \<Rightarrow>
               (Return (Wrap (Some err) ''getting comment body''), w2,
                [Call_Get owner reponame prnum, Call_body pr])
           | (Inr bodyText, w2) \<Rightarrow>
               (let issueComment = \<lparr>ID = None, Body = Some bodyText\<rparr> in
                case issues_ListComments c w2 owner reponame prnum of
                  (Inl err, w3) \<Rightarrow>
                    (Return (Wrap (Some err) ''listing PR comments''), w3,
                     [Call_Get owner reponame prnum, Call_body pr,
                      Call_ListComments owner reponame prnum])
                | (Inr comments, w3) \<Rightarrow>
                    (case (case IsComment c of
                             None \<Rightarrow> ([], None)
                           | Some f \<Rightarrow> for_comments c f w3 owner reponame issueComment comments) of
                       (calls, Some (out, w4)) \<Rightarrow>
                         (out, w4,
                          [Call_Get owner reponame prnum, Call_body pr,
                           Call_ListComments owner reponame prnum] @ calls)
                     | (calls, None) \<Rightarrow>
                         (case issues_CreateComment c w3 owner reponame prnum issueComment of
                            (err, w4) \<Rightarrow>
                              (Return (Wrap err ''adding PR comment''), w4,
                               [Call_Get owner reponame prnum, Call_body pr,
                                Call_ListComments owner reponame prnum] @ calls @
                               [Call_CreateComment owner reponame prnum issueComment]))))))"

text \<open>The network writes among the calls: an edit or a create.\<close>

fun is_write :: "'pr call \<Rightarrow> bool" where
  "is_write (Call_EditComment _ _ _ _) = True"
| "is_write (Call_CreateComment _ _ _ _) = True"
| "is_write _ = False"

text \<open>A listed comment carries an ID when neither it nor its \<open>ID\<close> field is nil.\<close>

fun carries_ID :: "IssueComment option \<Rightarrow> bool" where
  "carries_ID None = False"
| "carries_ID (Some cm) = (ID cm \<noteq> None)"

text \<open>
  The step a call belongs to: fetching the pull request, generating the body, listing
  the comments, matching, writing.
\<close>

fun stage_of :: "'pr call \<Rightarrow> nat" where
  "stage_of (Call_Get _ _ _) = 0"
| "stage_of (Call_body _) = 1"
| "stage_of (Call_ListComments _ _ _) = 2"
| "stage_of (Call_IsComment _) = 3"
| "stage_of (Call_EditComment _ _ _ _) = 4"
| "stage_of (Call_CreateComment _ _ _ _) = 4"

subsection \<open>A test double\<close>

text \<open>
  A stand-in for the GitHub client, for running \<open>AddOrUpdate\<close> on concrete inputs. The
  world is the comment thread of the pull request; the pull request is its number.
  \<open>failing\<close> names the one call that fails, if any. An edit replaces the body of the
  comments with the given ID, a create appends a comment with a fresh ID.
\<close>

datatype stage = Getting | Generating | Listing | Updating | Adding

definition fake_Commenter ::
  "(IssueComment option \<Rightarrow> bool) option \<Rightarrow> stage option \<Rightarrow> (IssueComment option list, int) Commenter" where
  "fake_Commenter matcher failing =
     \<lparr>IsComment = matcher,
      body = (\<lambda>w pr. (if failing = Some Generating then Inl (Foreign ''no report'')
                       else Inr ''new report'', w)),
      prs_Get = (\<lambda>w ow rp n. (if failing = Some Getting then Inl (Foreign ''404 Not Found'')
                                 else Inr n, w)),
      issues_CreateComment = (\<lambda>w ow rp n ic.
         if failing = Some Adding then (Some (Foreign ''403 Forbidden''), w)
         else (None, w @ [Some (ic\<lparr>ID := Some (1 + of_nat (length w))\<rparr>)])),
      issues_EditComment = (\<lambda>w ow rp i ic.
         if failing = Some Updating then (Some (Foreign ''403 Forbidden''), w)
         else (None, map (map_option (\<lambda>cm. if ID cm = Some i then cm\<lparr>Body := Body ic\<rparr> else cm)) w)),
      issues_ListComments = (\<lambda>w ow rp n.
         (if failing = Some Listing then Inl (Foreign ''502 Bad Gateway'') else Inr w, w))\<rparr>"

text \<open>A matcher: the comments whose body is the old report.\<close>

definition is_report :: "IssueComment option \<Rightarrow> bool" where
  "is_report comment =
     (case comment of None \<Rightarrow> False | Some cm \<Rightarrow> Body cm = Some ''old report'')"

text \<open>
  Two threads: one with two old reports after another comment, and one whose old
  report was listed without an ID.
\<close>

definition thread :: "IssueComment option list" where
  "thread =
     [Some \<lparr>ID = Some 7, Body = Some ''hello''\<rparr>,
      Some \<lparr>ID = Some 8, Body = Some ''old report''\<rparr>,
      Some \<lparr>ID = Some 9, Body = Some ''old report''\<rparr>]"

definition thread_without_ID :: "IssueComment option list" where
  "thread_without_ID =
     [Some \<lparr>ID = Some 7, Body = Some ''hello''\<rparr>,
      Some \<lparr>ID = None, Body = Some ''old report''\<rparr>,
      Some \<lparr>ID = Some 9, Body = Some ''old report''\<rparr>]"

section \<open>Go library functions used by ParsePR\<close>

text \<open>
  \<open>strings.TrimLeft(s, cutset)\<close>: \<open>s\<close> without its leading bytes that are in \<open>cutset\<close>
  (a cutset of ASCII bytes, as here).
\<close>

definition TrimLeft :: "string \<Rightarrow> string \<Rightarrow> string" where
  "TrimLeft s cutset = dropWhile (\<lambda>ch. ch \<in> set cutset) s"

text \<open>\<open>strings.TrimPrefix(s, prefix)\<close>: \<open>s\<close> without the one leading \<open>prefix\<close>, if it has it.\<close>

definition TrimPrefix :: "string \<Rightarrow> string \<Rightarrow> string" where
  "TrimPrefix s pre = (if take (length pre) s = pre then drop (length pre) s else s)"

text \<open>
  \<open>strings.Split(s, sep)\<close> for a separator of one byte: the pieces of \<open>s\<close> between the
  separators, at least one piece (the empty string gives one empty piece).
\<close>

fun Split :: "string \<Rightarrow> char \<Rightarrow> string list" where
  "Split [] sep = [[]]"
| "Split (ch # s) sep =
     (if ch = sep then [] # Split s sep
      else (case Split s sep of
              [] \<Rightarrow> [[ch]]
            | p # ps \<Rightarrow> (ch # p) # ps))"

text \<open>
  \<open>strconv.Atoi\<close>, with \<open>int\<close> of 64 bits: an optional sign and then one or more decimal
  digits. The digits are read from the left as \<open>strconv.ParseUint\<close> reads them in base
  10: a byte that is not a digit stops the reading with a syntax error, and a value
  that leaves 64 bits stops it with a range error, whatever follows. A value out of
  the range of \<open>int\<close> gives the nearest bound and \<open>ErrRange\<close>, a syntax error gives 0 and
  \<open>ErrSyntax\<close>. (The fast path of \<open>Atoi\<close> for short texts computes the same.)
\<close>

definition is_digit :: "char \<Rightarrow> bool" where
  "is_digit ch = (48 \<le> (of_char ch :: nat) \<and> (of_char ch :: nat) \<le> 57)"

datatype uint_result = SyntaxError | RangeError | Uint nat

fun ParseUint_digits :: "string \<Rightarrow> nat \<Rightarrow> uint_result" where
  "ParseUint_digits [] n = Uint n"
| "ParseUint_digits (ch # s) n =
     (if \<not> is_digit ch then SyntaxError
      else if n \<ge> (2 ^ 64 - 1) div 10 + 1 then RangeError
      else if n * 10 + (of_char ch - 48) > 2 ^ 64 - 1 then RangeError
      else ParseUint_digits s (n * 10 + (of_char ch - 48)))"

definition Atoi :: "string \<Rightarrow> int \<times> error option" where
  "Atoi s =
     (let neg = (s \<noteq> [] \<and> hd s = CHR ''-'');
          digits = (if s \<noteq> [] \<and> (hd s = CHR ''+'' \<or> hd s = CHR ''-'') then tl s else s)
      in if digits = [] then (0, Some (ErrSyntax s))
         else (case ParseUint_digits digits 0 of
                 SyntaxError \<Rightarrow> (0, Some (ErrSyntax s))
               | RangeError \<Rightarrow>
                   if neg then (- (2 ^ 63), Some (ErrRange s))
                   else (2 ^ 63 - 1, Some (ErrRange s))
               | Uint un \<Rightarrow>
                   if \<not> neg \<and> un \<ge> 2 ^ 63 then (2 ^ 63 - 1, Some (ErrRange s))
                   else if neg \<and> un > 2 ^ 63 then (- (2 ^ 63), Some (ErrRange s))
                   else (if neg then - int un else int un, None)))"

text \<open>The text of an integer: an optional sign, then digits only, at least one.\<close>

definition is_integer_text :: "string \<Rightarrow> bool" where
  "is_integer_text s =
     (let digits = (if s \<noteq> [] \<and> (hd s = CHR ''+'' \<or> hd s = CHR ''-'') then tl s else s)
      in digits \<noteq> [] \<and> list_all is_digit digits)"

text \<open>
  The integer such a text denotes, read as a decimal numeral of any length: the value
  of the digits, negated after a minus sign.
\<close>

definition digits_nat :: "string \<Rightarrow> nat" where
  "digits_nat s = foldl (\<lambda>n ch. n * 10 + (of_char ch - 48)) 0 s"

definition integer_value :: "string \<Rightarrow> int" where
  "integer_value s =
     (if s \<noteq> [] \<and> hd s = CHR ''-'' then - int (digits_nat (tl s))
      else if s \<noteq> [] \<and> hd s = CHR ''+'' then int (digits_nat (tl s))
      else int (digits_nat s))"

text \<open>\<open>url.URL\<close>: the two fields \<open>ParsePR\<close> reads.\<close>

record URL =
  Host :: string
  Path :: string

text \<open>
  \<open>strings.Cut(s, sep)\<close> for a separator of one byte: the text before the first
  separator and the text after it (all of \<open>s\<close> and nothing when there is none).
\<close>

fun Cut :: "string \<Rightarrow> char \<Rightarrow> string \<times> string" where
  "Cut [] sep = ([], [])"
| "Cut (ch # s) sep =
     (if ch = sep then ([], s) else (case Cut s sep of (before, after) \<Rightarrow> (ch # before, after)))"

text \<open>
  \<open>getScheme\<close> of net/url: the letters, digits, \<open>+\<close>, \<open>-\<close> and \<open>.\<close> before the first colon
  are the scheme (it starts with a letter); any other byte before a colon means there is
  no scheme. \<open>k\<close> counts the bytes read.
\<close>

definition is_letter :: "char \<Rightarrow> bool" where
  "is_letter ch =
     ((97 \<le> (of_char ch :: nat) \<and> (of_char ch :: nat) \<le> 122) \<or>
      (65 \<le> (of_char ch :: nat) \<and> (of_char ch :: nat) \<le> 90))"

fun scan_scheme :: "string \<Rightarrow> nat \<Rightarrow> string \<Rightarrow> error + (string \<times> string)" where
  "scan_scheme rawURL k [] = Inr ([], rawURL)"
| "scan_scheme rawURL k (ch # s) =
     (if is_letter ch then scan_scheme rawURL (Suc k) s
      else if is_digit ch \<or> ch = CHR ''+'' \<or> ch = CHR ''-'' \<or> ch = CHR ''.'' then
        (if k = 0 then Inr ([], rawURL) else scan_scheme rawURL (Suc k) s)
      else if ch = CHR '':'' then
        (if k = 0 then Inl (Foreign ''missing protocol scheme'') else Inr (take k rawURL, s))
      else Inr ([], rawURL))"

definition getScheme :: "string \<Rightarrow> error + (string \<times> string)" where
  "getScheme rawURL = scan_scheme rawURL 0 rawURL"

text \<open>
  \<open>url.Parse\<close> of net/url, for the fields \<open>Host\<close> and \<open>Path\<close>: the fragment after \<open>#\<close> and
  the query after \<open>?\<close> are cut off, the scheme is read, and after \<open>//\<close> the text up to
  the next \<open>/\<close> is the authority, whose part after the last \<open>@\<close> is the host; the rest is
  the path. The model keeps the bytes as they are: percent-escapes are not decoded and
  the host and the user information are not validated, so it is the library only on
  URLs without \<open>%\<close> whose authority is a plain host name. An error is given by the
  message of its cause (the library wraps the cause in a \<open>url.Error\<close> with the URL).
  The model is used for concrete URLs only; every general statement about \<open>ParsePR\<close>
  below is for an arbitrary parser.
\<close>

definition is_CTL :: "char \<Rightarrow> bool" where
  "is_CTL ch = ((of_char ch :: nat) < 32 \<or> (of_char ch :: nat) = 127)"

definition after_last_at :: "string \<Rightarrow> string" where
  "after_last_at authority = rev (takeWhile (\<lambda>ch. ch \<noteq> CHR ''@'') (rev authority))"

definition url_Parse :: "string \<Rightarrow> error + URL" where
  "url_Parse rawURL =
     (let u = fst (Cut rawURL CHR ''#'') in
      if list_ex is_CTL u then Inl (Foreign ''net/url: invalid control character in URL'')
      else if u = ''*'' then Inr \<lparr>Host = [], Path = ''*''\<rparr>
      else
        (case getScheme u of
           Inl err \<Rightarrow> Inl err
         | Inr (scheme, rest0) \<Rightarrow>
             (let rest = fst (Cut rest0 CHR ''?'') in
              if take 1 rest \<noteq> ''/'' \<and> scheme \<noteq> [] then Inr \<lparr>Host = [], Path = []\<rparr>
              else if take 1 rest \<noteq> ''/'' \<and> CHR '':'' \<in> set (fst (Cut rest CHR ''/'')) then
                Inl (Foreign ''first path segment in URL cannot contain colon'')
              else if (scheme \<noteq> [] \<or> take 3 rest \<noteq> ''///'') \<and> take 2 rest = ''//'' then
                (let authority = takeWhile (\<lambda>ch. ch \<noteq> CHR ''/'') (drop 2 rest);
                     path = dropWhile (\<lambda>ch. ch \<noteq> CHR ''/'') (drop 2 rest)
                 in Inr \<lparr>Host = after_last_at authority, Path = path\<rparr>)
              else Inr \<lparr>Host = [], Path = rest\<rparr>)))"

section \<open>ParsePR\<close>

text \<open>
  The named results of \<open>ParsePR\<close>. A bare \<open>return\<close> gives them as they stand: the zero
  values (\<open>[]\<close>, 0) until assigned.
\<close>

record ParsePR_results =
  host :: string
  owner :: string
  reponame :: string
  prnum :: int
  err :: "error option"

text \<open>
  \<open>ParsePR\<close>, with the URL parser of the library as a parameter (\<open>url.Parse\<close>).
  \<open>len(parts) < 4\<close> guards the reads \<open>parts[0]\<close> to \<open>parts[3]\<close>.
\<close>

definition ParsePR :: "(string \<Rightarrow> error + URL) \<Rightarrow> string \<Rightarrow> ParsePR_results" where
  "ParsePR parse pr =
     (case parse pr of
        Inl e \<Rightarrow>
          \<lparr>host = [], owner = [], reponame = [], prnum = 0,
           err = Wrap (Some e) ''parsing GitHub pull-request URL''\<rparr>
      | Inr u \<Rightarrow>
          (let path = TrimLeft (Path u) ''/'';
               parts = Split path CHR ''/''
           in if length parts < 4 then
                \<lparr>host = [], owner = [], reponame = [], prnum = 0,
                 err = Some (TooFewPathElements (length parts))\<rparr>
              else if parts ! 2 \<noteq> ''pull'' then
                \<lparr>host = [], owner = [], reponame = [], prnum = 0,
                 err = Some NotExpectedFormat\<rparr>
              else
                (case Atoi (parts ! 3) of
                   (n, e) \<Rightarrow>
                     \<lparr>host = Host u, owner = parts ! 0, reponame = parts ! 1, prnum = n,
                      err = Wrap e ''parsing number from GitHub pull-request URL''\<rparr>)))"

text \<open>
  The reading of the specification's words for the path segments: one leading slash is
  removed, then the path is split. \<open>ParsePR_single_slash\<close> is \<open>ParsePR\<close> with this
  reading in the place of \<open>strings.TrimLeft\<close>.
\<close>

definition ParsePR_single_slash :: "(string \<Rightarrow> error + URL) \<Rightarrow> string \<Rightarrow> ParsePR_results" where
  "ParsePR_single_slash parse pr =
     (case parse pr of
        Inl e \<Rightarrow>
          \<lparr>host = [], owner = [], reponame = [], prnum = 0,
           err = Wrap (Some e) ''parsing GitHub pull-request URL''\<rparr>
      | Inr u \<Rightarrow>
          (let path = TrimPrefix (Path u) ''/'';
               parts = Split path CHR ''/''
           in if length parts < 4 then
                \<lparr>host = [], owner = [], reponame = [], prnum = 0,
                 err = Some (TooFewPathElements (length parts))\<rparr>
              else if parts ! 2 \<noteq> ''pull'' then
                \<lparr>host = [], owner = [], reponame = [], prnum = 0,
                 err = Some NotExpectedFormat\<rparr>
              else
                (case Atoi (parts ! 3) of
                   (n, e) \<Rightarrow>
                     \<lparr>host = Host u, owner = parts ! 0, reponame = parts ! 1, prnum = n,
                      err = Wrap e ''parsing number from GitHub pull-request URL''\<rparr>)))"

section \<open>Properties of ParsePR\<close>

lemmas url_eval = url_Parse_def getScheme_def is_letter_def is_digit_def is_CTL_def
  after_last_at_def

lemmas ParsePR_eval = ParsePR_def TrimLeft_def Atoi_def is_digit_def

lemma ParsePR_Inl:
  "parse pr = Inl e \<Longrightarrow>
   ParsePR parse pr =
     \<lparr>host = [], owner = [], reponame = [], prnum = 0,
      err = Some (Wrapped e ''parsing GitHub pull-request URL'')\<rparr>"
  by (simp add: ParsePR_def)

lemma ParsePR_too_few:
  "parse pr = Inr u \<Longrightarrow> length (Split (TrimLeft (Path u) ''/'') CHR ''/'') < 4 \<Longrightarrow>
   ParsePR parse pr =
     \<lparr>host = [], owner = [], reponame = [], prnum = 0,
      err = Some (TooFewPathElements (length (Split (TrimLeft (Path u) ''/'') CHR ''/'')))\<rparr>"
  by (simp add: ParsePR_def Let_def)

lemma ParsePR_not_pull:
  "parse pr = Inr u \<Longrightarrow> 4 \<le> length (Split (TrimLeft (Path u) ''/'') CHR ''/'') \<Longrightarrow>
   Split (TrimLeft (Path u) ''/'') CHR ''/'' ! 2 \<noteq> ''pull'' \<Longrightarrow>
   ParsePR parse pr =
     \<lparr>host = [], owner = [], reponame = [], prnum = 0, err = Some NotExpectedFormat\<rparr>"
  by (simp add: ParsePR_def Let_def)

lemma ParsePR_number:
  "parse pr = Inr u \<Longrightarrow> 4 \<le> length (Split (TrimLeft (Path u) ''/'') CHR ''/'') \<Longrightarrow>
   Split (TrimLeft (Path u) ''/'') CHR ''/'' ! 2 = ''pull'' \<Longrightarrow>
   Atoi (Split (TrimLeft (Path u) ''/'') CHR ''/'' ! 3) = (n, e) \<Longrightarrow>
   ParsePR parse pr =
     \<lparr>host = Host u, owner = Split (TrimLeft (Path u) ''/'') CHR ''/'' ! 0,
      reponame = Split (TrimLeft (Path u) ''/'') CHR ''/'' ! 1, prnum = n,
      err = Wrap e ''parsing number from GitHub pull-request URL''\<rparr>"
  by (simp add: ParsePR_def Let_def)

lemma ParseUint_digits_Uint: "ParseUint_digits s n = Uint m \<Longrightarrow> list_all is_digit s"
  by (induction s arbitrary: n) (auto split: if_splits)

lemma Atoi_errors:
  "snd (Atoi s) = None \<or> snd (Atoi s) = Some (ErrSyntax s) \<or> snd (Atoi s) = Some (ErrRange s)"
  by (simp add: Atoi_def Let_def split: uint_result.splits)

lemma Atoi_accepts_integer_text:
  assumes "Atoi s = (n, None)"
  shows "is_integer_text s"
proof (cases "s \<noteq> [] \<and> (hd s = CHR ''+'' \<or> hd s = CHR ''-'')")
  case True
  with assms obtain un where "tl s \<noteq> []" and "ParseUint_digits (tl s) 0 = Uint un"
    by (auto simp: Atoi_def Let_def split: if_splits uint_result.splits)
  with True show ?thesis
    by (auto simp: is_integer_text_def Let_def dest: ParseUint_digits_Uint)
next
  case False
  with assms obtain un where "s \<noteq> []" and "ParseUint_digits s 0 = Uint un"
    by (auto simp: Atoi_def Let_def split: if_splits uint_result.splits)
  with False show ?thesis
    by (auto simp: is_integer_text_def Let_def dest: ParseUint_digits_Uint)
qed

lemma Atoi_rejects_other_text:
  assumes "\<not> is_integer_text s"
  shows "snd (Atoi s) = Some (ErrSyntax s) \<or> snd (Atoi s) = Some (ErrRange s)"
proof -
  from assms have "snd (Atoi s) \<noteq> None"
    using Atoi_accepts_integer_text [of s "fst (Atoi s)"] by (cases "Atoi s") auto
  with Atoi_errors [of s] show ?thesis
    by blast
qed

text \<open>
  C5: \<open>ParsePR\<close> reports the first requirement a URL violates, in the order of the
  checks. A URL the library cannot parse gives that error, wrapped. Otherwise fewer
  than four path segments give the too-few-elements error (whatever the segments
  are); otherwise a third segment other than \<open>pull\<close> gives the not-in-expected-format
  error (whatever the fourth segment is); otherwise an error of \<open>Atoi\<close> on the fourth
  segment is returned wrapped as the number error, and a fourth segment that is not
  the text of an integer gives such an error; otherwise the error is nil. So
  \<open>https://github.com/acme/widgets/issues/42\<close> fails with the format error.
\<close>

theorem ParsePR_first_violation:
  "(parse pr = Inl e \<longrightarrow>
      err (ParsePR parse pr) = Some (Wrapped e ''parsing GitHub pull-request URL'')) \<and>
   (parse pr = Inr u \<and> parts = Split (TrimLeft (Path u) ''/'') CHR ''/'' \<longrightarrow>
      (length parts < 4 \<longrightarrow>
         err (ParsePR parse pr) = Some (TooFewPathElements (length parts))) \<and>
      (4 \<le> length parts \<and> parts ! 2 \<noteq> ''pull'' \<longrightarrow>
         err (ParsePR parse pr) = Some NotExpectedFormat) \<and>
      (4 \<le> length parts \<and> parts ! 2 = ''pull'' \<and> Atoi (parts ! 3) = (n, Some e) \<longrightarrow>
         err (ParsePR parse pr) =
           Some (Wrapped e ''parsing number from GitHub pull-request URL'')) \<and>
      (4 \<le> length parts \<and> parts ! 2 = ''pull'' \<and> \<not> is_integer_text (parts ! 3) \<longrightarrow>
         err (ParsePR parse pr) =
           Some (Wrapped (ErrSyntax (parts ! 3)) ''parsing number from GitHub pull-request URL'') \<or>
         err (ParsePR parse pr) =
           Some (Wrapped (ErrRange (parts ! 3)) ''parsing number from GitHub pull-request URL'')) \<and>
      (4 \<le> length parts \<and> parts ! 2 = ''pull'' \<and> Atoi (parts ! 3) = (n, None) \<longrightarrow>
         err (ParsePR parse pr) = None))"
proof -
  have number: "err (ParsePR parse pr) = Wrap e' ''parsing number from GitHub pull-request URL''"
    if "parse pr = Inr u" "parts = Split (TrimLeft (Path u) ''/'') CHR ''/''"
      "4 \<le> length parts" "parts ! 2 = ''pull''" "Atoi (parts ! 3) = (n', e')" for n' e'
    using that by (simp add: ParsePR_number)
  have other: "err (ParsePR parse pr) =
        Some (Wrapped (ErrSyntax (parts ! 3)) ''parsing number from GitHub pull-request URL'') \<or>
      err (ParsePR parse pr) =
        Some (Wrapped (ErrRange (parts ! 3)) ''parsing number from GitHub pull-request URL'')"
    if "parse pr = Inr u" "parts = Split (TrimLeft (Path u) ''/'') CHR ''/''"
      "4 \<le> length parts" "parts ! 2 = ''pull''" "\<not> is_integer_text (parts ! 3)"
  proof -
    obtain n' e' where a: "Atoi (parts ! 3) = (n', e')"
      by (cases "Atoi (parts ! 3)")
    with Atoi_rejects_other_text [OF that(5)]
    have "e' = Some (ErrSyntax (parts ! 3)) \<or> e' = Some (ErrRange (parts ! 3))"
      by simp
    with number [OF that(1,2,3,4) a] show ?thesis
      by auto
  qed
  show ?thesis
    using number [of n "Some e"] number [of n None] other
    by (auto simp: ParsePR_Inl ParsePR_too_few ParsePR_not_pull)
qed

theorem ParsePR_first_violation_witness:
  "err (ParsePR url_Parse '':foo'') =
     Some (Wrapped (Foreign ''missing protocol scheme'') ''parsing GitHub pull-request URL'') \<and>
   err (ParsePR url_Parse ''https://github.com/acme/pull'') = Some (TooFewPathElements 2) \<and>
   err (ParsePR url_Parse ''https://github.com/acme/widgets/issues/42'') =
     Some NotExpectedFormat \<and>
   err (ParsePR url_Parse ''https://github.com/acme/widgets/pull/abc'') =
     Some (Wrapped (ErrSyntax ''abc'') ''parsing number from GitHub pull-request URL'')"
proof -
  have p1: "url_Parse '':foo'' = Inl (Foreign ''missing protocol scheme'')"
    by (simp add: url_eval)
  have p2: "url_Parse ''https://github.com/acme/pull'' =
      Inr \<lparr>Host = ''github.com'', Path = ''/acme/pull''\<rparr>"
    by (simp add: url_eval)
  have p3: "url_Parse ''https://github.com/acme/widgets/issues/42'' =
      Inr \<lparr>Host = ''github.com'', Path = ''/acme/widgets/issues/42''\<rparr>"
    by (simp add: url_eval)
  have p4: "url_Parse ''https://github.com/acme/widgets/pull/abc'' =
      Inr \<lparr>Host = ''github.com'', Path = ''/acme/widgets/pull/abc''\<rparr>"
    by (simp add: url_eval)
  have s2: "Split (TrimLeft ''/acme/pull'' ''/'') CHR ''/'' = [''acme'', ''pull'']"
    by (simp add: TrimLeft_def)
  have s3: "Split (TrimLeft ''/acme/widgets/issues/42'' ''/'') CHR ''/'' =
      [''acme'', ''widgets'', ''issues'', ''42'']"
    by (simp add: TrimLeft_def)
  have s4: "Split (TrimLeft ''/acme/widgets/pull/abc'' ''/'') CHR ''/'' =
      [''acme'', ''widgets'', ''pull'', ''abc'']"
    by (simp add: TrimLeft_def)
  have n4: "Atoi ''abc'' = (0, Some (ErrSyntax ''abc''))"
    by (simp add: Atoi_def is_digit_def)
  show ?thesis
    using ParsePR_first_violation [of url_Parse "'':foo''" "Foreign ''missing protocol scheme''"]
      ParsePR_first_violation [of url_Parse "''https://github.com/acme/pull''" _
        "\<lparr>Host = ''github.com'', Path = ''/acme/pull''\<rparr>" "[''acme'', ''pull'']"]
      ParsePR_first_violation [of url_Parse "''https://github.com/acme/widgets/issues/42''" _
        "\<lparr>Host = ''github.com'', Path = ''/acme/widgets/issues/42''\<rparr>"
        "[''acme'', ''widgets'', ''issues'', ''42'']"]
      ParsePR_first_violation [of url_Parse "''https://github.com/acme/widgets/pull/abc''"
        "ErrSyntax ''abc''" "\<lparr>Host = ''github.com'', Path = ''/acme/widgets/pull/abc''\<rparr>"
        "[''acme'', ''widgets'', ''pull'', ''abc'']" 0]
      p1 p2 p3 p4 s2 s3 s4 n4
    by simp
qed

text \<open>
  C6: \<open>ParsePR\<close> on \<open>https://github.com/acme/widgets/pull/42\<close>, which the library splits
  into the host \<open>github.com\<close> and the path \<open>/acme/widgets/pull/42\<close>, returns the host
  \<open>github.com\<close>, the owner \<open>acme\<close>, the repository \<open>widgets\<close>, the number 42 and a nil
  error.
\<close>

theorem ParsePR_example:
  "parse ''https://github.com/acme/widgets/pull/42'' =
     Inr \<lparr>Host = ''github.com'', Path = ''/acme/widgets/pull/42''\<rparr> \<Longrightarrow>
   ParsePR parse ''https://github.com/acme/widgets/pull/42'' =
     \<lparr>host = ''github.com'', owner = ''acme'', reponame = ''widgets'', prnum = 42, err = None\<rparr>"
  by (simp add: ParsePR_eval)

theorem ParsePR_example_witness:
  "url_Parse ''https://github.com/acme/widgets/pull/42'' =
     Inr \<lparr>Host = ''github.com'', Path = ''/acme/widgets/pull/42''\<rparr> \<and>
   ParsePR url_Parse ''https://github.com/acme/widgets/pull/42'' =
     \<lparr>host = ''github.com'', owner = ''acme'', reponame = ''widgets'', prnum = 42, err = None\<rparr>"
proof -
  have p: "url_Parse ''https://github.com/acme/widgets/pull/42'' =
      Inr \<lparr>Host = ''github.com'', Path = ''/acme/widgets/pull/42''\<rparr>"
    by (simp add: url_eval)
  from p ParsePR_example [of url_Parse, OF p] show ?thesis by simp
qed

lemma TrimLeft_slashes:
  "take 1 p \<noteq> ''/'' \<Longrightarrow> TrimLeft (replicate k CHR ''/'' @ p) ''/'' = p"
  by (induction k) (auto simp: TrimLeft_def dropWhile_eq_self_iff take_Suc)

lemma TrimPrefix_no_slash: "take 1 p \<noteq> ''/'' \<Longrightarrow> TrimPrefix p ''/'' = p"
  by (simp add: TrimPrefix_def)

lemma TrimPrefix_one_slash: "TrimPrefix (CHR ''/'' # p) ''/'' = p"
  by (simp add: TrimPrefix_def)

lemma Split_hd_nonempty: "p \<noteq> [] \<Longrightarrow> take 1 p \<noteq> ''/'' \<Longrightarrow> hd (Split p CHR ''/'') \<noteq> []"
  by (cases p) (auto split: list.splits)

text \<open>
  C7, as the code has it: \<open>ParsePR\<close> removes every leading slash of the path
  (\<open>strings.TrimLeft\<close> with the cutset \<open>/\<close>), not one, and then splits on \<open>/\<close>. For a
  path of \<open>k\<close> slashes followed by \<open>p\<close>, where \<open>p\<close> does not start with a slash, the
  result is what the one-slash reading gives for the path \<open>p\<close>; the two readings agree
  when the path has at most one leading slash; and leading slashes never contribute
  an empty first segment.
\<close>

theorem ParsePR_trims_every_leading_slash:
  assumes "parse pr = Inr u" and "Path u = replicate k CHR ''/'' @ p" and "take 1 p \<noteq> ''/''"
  shows "ParsePR parse pr = ParsePR_single_slash (\<lambda>x. Inr (u\<lparr>Path := p\<rparr>)) pr \<and>
         (k \<le> 1 \<longrightarrow> ParsePR parse pr = ParsePR_single_slash parse pr) \<and>
         (p \<noteq> [] \<longrightarrow> hd (Split (TrimLeft (Path u) ''/'') CHR ''/'') \<noteq> [])"
proof (intro conjI impI)
  from assms have t: "TrimLeft (Path u) ''/'' = p"
    by (simp add: TrimLeft_slashes)
  from assms(3) have s: "TrimPrefix p ''/'' = p"
    by (rule TrimPrefix_no_slash)
  from assms(1) t s show "ParsePR parse pr = ParsePR_single_slash (\<lambda>x. Inr (u\<lparr>Path := p\<rparr>)) pr"
    by (simp add: ParsePR_def ParsePR_single_slash_def Let_def)
  {
    assume "k \<le> 1"
    then have "k = 0 \<or> k = 1" by arith
    with assms(2) s have "TrimPrefix (Path u) ''/'' = p"
      by (auto simp: TrimPrefix_one_slash)
    with assms(1) t show "ParsePR parse pr = ParsePR_single_slash parse pr"
      by (simp add: ParsePR_def ParsePR_single_slash_def Let_def)
  }
  {
    assume "p \<noteq> []"
    with assms(3) t show "hd (Split (TrimLeft (Path u) ''/'') CHR ''/'') \<noteq> []"
      by (simp add: Split_hd_nonempty)
  }
qed

theorem ParsePR_trims_every_leading_slash_witness:
  "ParsePR url_Parse ''https://github.com//acme/widgets/pull/42'' =
     ParsePR_single_slash
       (\<lambda>x. Inr \<lparr>Host = ''github.com'', Path = ''acme/widgets/pull/42''\<rparr>)
       ''https://github.com//acme/widgets/pull/42'' \<and>
   ParsePR url_Parse ''https://github.com/acme/widgets/pull/42'' =
     ParsePR_single_slash url_Parse ''https://github.com/acme/widgets/pull/42'' \<and>
   hd (Split (TrimLeft ''//acme/widgets/pull/42'' ''/'') CHR ''/'') \<noteq> []"
proof -
  have p2: "url_Parse ''https://github.com//acme/widgets/pull/42'' =
      Inr \<lparr>Host = ''github.com'', Path = ''//acme/widgets/pull/42''\<rparr>"
    by (simp add: url_eval)
  have p1: "url_Parse ''https://github.com/acme/widgets/pull/42'' =
      Inr \<lparr>Host = ''github.com'', Path = ''/acme/widgets/pull/42''\<rparr>"
    by (simp add: url_eval)
  have r2: "Path \<lparr>Host = ''github.com'', Path = ''//acme/widgets/pull/42''\<rparr> =
      replicate 2 CHR ''/'' @ ''acme/widgets/pull/42''"
    by (simp add: numeral_2_eq_2)
  have r1: "Path \<lparr>Host = ''github.com'', Path = ''/acme/widgets/pull/42''\<rparr> =
      replicate 1 CHR ''/'' @ ''acme/widgets/pull/42''"
    by simp
  have n: "take 1 ''acme/widgets/pull/42'' \<noteq> ''/''"
    by simp
  note two = ParsePR_trims_every_leading_slash
      [of url_Parse "''https://github.com//acme/widgets/pull/42''", OF p2 r2 n]
  note one = ParsePR_trims_every_leading_slash
      [of url_Parse "''https://github.com/acme/widgets/pull/42''", OF p1 r1 n]
  have c1: "ParsePR url_Parse ''https://github.com//acme/widgets/pull/42'' =
     ParsePR_single_slash
       (\<lambda>x. Inr \<lparr>Host = ''github.com'', Path = ''acme/widgets/pull/42''\<rparr>)
       ''https://github.com//acme/widgets/pull/42''"
    using two [THEN conjunct1] by simp
  have c2: "ParsePR url_Parse ''https://github.com/acme/widgets/pull/42'' =
     ParsePR_single_slash url_Parse ''https://github.com/acme/widgets/pull/42''"
    using one [THEN conjunct2, THEN conjunct1] by simp
  have c3: "hd (Split (TrimLeft ''//acme/widgets/pull/42'' ''/'') CHR ''/'') \<noteq> []"
    using two [THEN conjunct2, THEN conjunct2] by simp
  from c1 c2 c3 show ?thesis by blast
qed

text \<open>
  C7 as stated fails on \<open>https://github.com//acme/widgets/pull/42\<close>, whose path starts
  with two slashes: removing one slash and splitting gives an empty first segment and
  \<open>widgets\<close> as the third, so the one-slash reading reports the format error, while
  \<open>ParsePR\<close> succeeds with the owner \<open>acme\<close>.
\<close>

theorem ParsePR_single_slash_counterexample:
  "url_Parse ''https://github.com//acme/widgets/pull/42'' =
     Inr \<lparr>Host = ''github.com'', Path = ''//acme/widgets/pull/42''\<rparr> \<and>
   Split (TrimPrefix ''//acme/widgets/pull/42'' ''/'') CHR ''/'' =
     ['''', ''acme'', ''widgets'', ''pull'', ''42''] \<and>
   ParsePR_single_slash url_Parse ''https://github.com//acme/widgets/pull/42'' =
     \<lparr>host = [], owner = [], reponame = [], prnum = 0, err = Some NotExpectedFormat\<rparr> \<and>
   ParsePR url_Parse ''https://github.com//acme/widgets/pull/42'' =
     \<lparr>host = ''github.com'', owner = ''acme'', reponame = ''widgets'', prnum = 42, err = None\<rparr>"
  by (simp add: url_eval ParsePR_eval ParsePR_single_slash_def TrimPrefix_def)

lemma foldl_digits_ge: "n \<le> foldl (\<lambda>n ch. n * 10 + (of_char ch - 48)) (n::nat) s"
proof (induction s arbitrary: n)
  case Nil
  show ?case by simp
next
  case (Cons ch s)
  have "n \<le> n * 10 + (of_char ch - 48)" by simp
  also have "\<dots> \<le> foldl (\<lambda>n ch. n * 10 + (of_char ch - 48)) (n * 10 + (of_char ch - 48)) s"
    by (rule Cons.IH)
  finally show ?case by simp
qed

lemma ParseUint_digits_value:
  "list_all is_digit s \<Longrightarrow> n < 2 ^ 64 \<Longrightarrow>
   ParseUint_digits s n =
     (if foldl (\<lambda>n ch. n * 10 + (of_char ch - 48)) n s < 2 ^ 64
      then Uint (foldl (\<lambda>n ch. n * 10 + (of_char ch - 48)) n s) else RangeError)"
proof (induction s arbitrary: n)
  case Nil
  then show ?case
    by simp
next
  case (Cons ch s)
  let ?m = "n * 10 + (of_char ch - 48)"
  from Cons.prems have d: "is_digit ch" and r: "list_all is_digit s" and n: "n < 2 ^ 64"
    by simp_all
  have ge: "?m \<le> foldl (\<lambda>n ch. n * 10 + (of_char ch - 48)) ?m s"
    by (rule foldl_digits_ge)
  show ?case
  proof (cases "?m < 2 ^ 64")
    case True
    then have "\<not> n \<ge> (2 ^ 64 - 1) div 10 + 1" and "\<not> ?m > 2 ^ 64 - 1"
      by simp_all
    with d Cons.IH [OF r True] show ?thesis
      by simp
  next
    case False
    with ge have "\<not> foldl (\<lambda>n ch. n * 10 + (of_char ch - 48)) ?m s < 2 ^ 64"
      by linarith
    with False d show ?thesis
      by auto
  qed
qed

lemma Atoi_integer_text:
  assumes "is_integer_text s"
  shows "Atoi s =
     (if integer_value s < - (2 ^ 63) then (- (2 ^ 63), Some (ErrRange s))
      else if 2 ^ 63 - 1 < integer_value s then (2 ^ 63 - 1, Some (ErrRange s))
      else (integer_value s, None))"
proof (cases "s \<noteq> [] \<and> (hd s = CHR ''+'' \<or> hd s = CHR ''-'')")
  case True
  with assms have d: "tl s \<noteq> []" "list_all is_digit (tl s)"
    by (auto simp: is_integer_text_def Let_def)
  from ParseUint_digits_value [OF d(2), of 0]
  have p: "ParseUint_digits (tl s) 0 =
      (if digits_nat (tl s) < 2 ^ 64 then Uint (digits_nat (tl s)) else RangeError)"
    by (simp add: digits_nat_def)
  show ?thesis
  proof (cases "hd s = CHR ''-''")
    case neg: True
    with True d(1) p show ?thesis
      by (auto simp: Atoi_def integer_value_def Let_def)
  next
    case pos: False
    with True d(1) p show ?thesis
      by (auto simp: Atoi_def integer_value_def Let_def)
  qed
next
  case False
  with assms have d: "s \<noteq> []" "list_all is_digit s"
    by (auto simp: is_integer_text_def Let_def)
  from ParseUint_digits_value [OF d(2), of 0]
  have p: "ParseUint_digits s 0 =
      (if digits_nat s < 2 ^ 64 then Uint (digits_nat s) else RangeError)"
    by (simp add: digits_nat_def)
  from False d(1) have "hd s \<noteq> CHR ''-''" "hd s \<noteq> CHR ''+''"
    by auto
  with d(1) p show ?thesis
    by (auto simp: Atoi_def integer_value_def Let_def)
qed

text \<open>
  C9, with the range the code needs: when the first four path segments are an owner,
  a repository, \<open>pull\<close> and the text of an integer that fits the 64-bit \<open>int\<close>,
  \<open>ParsePR\<close> succeeds with that integer as the number, whatever segments follow:
  \<open>.../pull/42/files\<close> parses to the number 42. For an integer outside that range the
  result is the wrapped range error of \<open>Atoi\<close>, again whatever follows.
\<close>

theorem ParsePR_ignores_trailing_segments:
  assumes "parse pr = Inr u"
    and "Split (TrimLeft (Path u) ''/'') CHR ''/'' = ow # rp # ''pull'' # num # rest"
    and "is_integer_text num"
  shows "(- (2 ^ 63) \<le> integer_value num \<and> integer_value num \<le> 2 ^ 63 - 1 \<longrightarrow>
            ParsePR parse pr =
              \<lparr>host = Host u, owner = ow, reponame = rp, prnum = integer_value num, err = None\<rparr>) \<and>
         (integer_value num < - (2 ^ 63) \<or> 2 ^ 63 - 1 < integer_value num \<longrightarrow>
            err (ParsePR parse pr) =
              Some (Wrapped (ErrRange num) ''parsing number from GitHub pull-request URL''))"
  using assms(1,2) Atoi_integer_text [OF assms(3)]
  by (auto simp: ParsePR_def)

theorem ParsePR_ignores_trailing_segments_witness:
  "ParsePR url_Parse ''https://github.com/acme/widgets/pull/42/files'' =
     \<lparr>host = ''github.com'', owner = ''acme'', reponame = ''widgets'', prnum = 42, err = None\<rparr> \<and>
   ParsePR url_Parse ''https://github.com/acme/widgets/pull/42/commits/abc/'' =
     \<lparr>host = ''github.com'', owner = ''acme'', reponame = ''widgets'', prnum = 42, err = None\<rparr> \<and>
   err (ParsePR url_Parse ''https://github.com/acme/widgets/pull/-9223372036854775809/files'') =
     Some (Wrapped (ErrRange ''-9223372036854775809'') ''parsing number from GitHub pull-request URL'')"
proof -
  have p1: "url_Parse ''https://github.com/acme/widgets/pull/42/files'' =
      Inr \<lparr>Host = ''github.com'', Path = ''/acme/widgets/pull/42/files''\<rparr>"
    by (simp add: url_eval)
  have s1: "Split (TrimLeft (Path \<lparr>Host = ''github.com'', Path = ''/acme/widgets/pull/42/files''\<rparr>) ''/'') CHR ''/'' =
      ''acme'' # ''widgets'' # ''pull'' # ''42'' # [''files'']"
    by (simp add: TrimLeft_def)
  have p2: "url_Parse ''https://github.com/acme/widgets/pull/42/commits/abc/'' =
      Inr \<lparr>Host = ''github.com'', Path = ''/acme/widgets/pull/42/commits/abc/''\<rparr>"
    by (simp add: url_eval)
  have s2: "Split (TrimLeft (Path \<lparr>Host = ''github.com'', Path = ''/acme/widgets/pull/42/commits/abc/''\<rparr>) ''/'') CHR ''/'' =
      ''acme'' # ''widgets'' # ''pull'' # ''42'' # [''commits'', ''abc'', '''']"
    by (simp add: TrimLeft_def)
  have p3: "url_Parse ''https://github.com/acme/widgets/pull/-9223372036854775809/files'' =
      Inr \<lparr>Host = ''github.com'', Path = ''/acme/widgets/pull/-9223372036854775809/files''\<rparr>"
    by (simp add: url_eval)
  have s3: "Split (TrimLeft (Path \<lparr>Host = ''github.com'',
        Path = ''/acme/widgets/pull/-9223372036854775809/files''\<rparr>) ''/'') CHR ''/'' =
      ''acme'' # ''widgets'' # ''pull'' # ''-9223372036854775809'' # [''files'']"
    by (simp add: TrimLeft_def)
  have t: "is_integer_text ''42''" and v: "integer_value ''42'' = 42"
    by (simp_all add: is_integer_text_def is_digit_def integer_value_def digits_nat_def)
  have t3: "is_integer_text ''-9223372036854775809''"
    and v3: "integer_value ''-9223372036854775809'' = - 9223372036854775809"
    by (simp_all add: is_integer_text_def is_digit_def integer_value_def digits_nat_def)
  have c1: "ParsePR url_Parse ''https://github.com/acme/widgets/pull/42/files'' =
     \<lparr>host = ''github.com'', owner = ''acme'', reponame = ''widgets'', prnum = 42, err = None\<rparr>"
    using ParsePR_ignores_trailing_segments
      [of url_Parse "''https://github.com/acme/widgets/pull/42/files''", OF p1 s1 t, THEN conjunct1] v
    by simp
  have c2: "ParsePR url_Parse ''https://github.com/acme/widgets/pull/42/commits/abc/'' =
     \<lparr>host = ''github.com'', owner = ''acme'', reponame = ''widgets'', prnum = 42, err = None\<rparr>"
    using ParsePR_ignores_trailing_segments
      [of url_Parse "''https://github.com/acme/widgets/pull/42/commits/abc/''", OF p2 s2 t,
       THEN conjunct1] v
    by simp
  have c3: "err (ParsePR url_Parse ''https://github.com/acme/widgets/pull/-9223372036854775809/files'') =
     Some (Wrapped (ErrRange ''-9223372036854775809'') ''parsing number from GitHub pull-request URL'')"
    using ParsePR_ignores_trailing_segments
      [of url_Parse "''https://github.com/acme/widgets/pull/-9223372036854775809/files''",
       OF p3 s3 t3, THEN conjunct2] v3
    by simp
  from c1 c2 c3 show ?thesis
    by blast
qed

text \<open>
  C9 as stated, for every integer, fails when the integer does not fit \<open>int\<close>: the
  fourth segment of \<open>.../pull/9223372036854775808/files\<close> is the text of the integer
  2^63, and \<open>ParsePR\<close> returns the range error.
\<close>

theorem ParsePR_integer_out_of_range_counterexample:
  "url_Parse ''https://github.com/acme/widgets/pull/9223372036854775808/files'' =
     Inr \<lparr>Host = ''github.com'', Path = ''/acme/widgets/pull/9223372036854775808/files''\<rparr> \<and>
   Split (TrimLeft ''/acme/widgets/pull/9223372036854775808/files'' ''/'') CHR ''/'' =
     [''acme'', ''widgets'', ''pull'', ''9223372036854775808'', ''files''] \<and>
   is_integer_text ''9223372036854775808'' \<and>
   integer_value ''9223372036854775808'' = 9223372036854775808 \<and>
   ParsePR url_Parse ''https://github.com/acme/widgets/pull/9223372036854775808/files'' =
     \<lparr>host = ''github.com'', owner = ''acme'', reponame = ''widgets'',
      prnum = 9223372036854775807,
      err = Some (Wrapped (ErrRange ''9223372036854775808'')
                   ''parsing number from GitHub pull-request URL'')\<rparr>"
  by (simp add: url_eval ParsePR_def TrimLeft_def Atoi_def is_integer_text_def
      integer_value_def digits_nat_def)

text \<open>
  C10: the results on failure. With too few segments or a third segment other than
  \<open>pull\<close>, the host, the owner, the repository and the number are the zero values.
  When the number does not parse, the error is non-nil and the host, the owner and
  the repository are already those of the URL.
\<close>

theorem ParsePR_results_on_failure:
  assumes "parse pr = Inr u" and "parts = Split (TrimLeft (Path u) ''/'') CHR ''/''"
  shows "(length parts < 4 \<longrightarrow>
            ParsePR parse pr =
              \<lparr>host = [], owner = [], reponame = [], prnum = 0,
               err = Some (TooFewPathElements (length parts))\<rparr>) \<and>
         (4 \<le> length parts \<and> parts ! 2 \<noteq> ''pull'' \<longrightarrow>
            ParsePR parse pr =
              \<lparr>host = [], owner = [], reponame = [], prnum = 0, err = Some NotExpectedFormat\<rparr>) \<and>
         (4 \<le> length parts \<and> parts ! 2 = ''pull'' \<and> Atoi (parts ! 3) = (n, Some e) \<longrightarrow>
            ParsePR parse pr =
              \<lparr>host = Host u, owner = parts ! 0, reponame = parts ! 1, prnum = n,
               err = Some (Wrapped e ''parsing number from GitHub pull-request URL'')\<rparr>)"
  using assms by (simp add: ParsePR_too_few ParsePR_not_pull ParsePR_number)

theorem ParsePR_results_on_failure_witness:
  "ParsePR url_Parse ''https://github.com/acme/pull'' =
     \<lparr>host = [], owner = [], reponame = [], prnum = 0, err = Some (TooFewPathElements 2)\<rparr> \<and>
   ParsePR url_Parse ''https://github.com/acme/widgets/issues/42'' =
     \<lparr>host = [], owner = [], reponame = [], prnum = 0, err = Some NotExpectedFormat\<rparr> \<and>
   ParsePR url_Parse ''https://github.com/acme/widgets/pull/abc'' =
     \<lparr>host = ''github.com'', owner = ''acme'', reponame = ''widgets'', prnum = 0,
      err = Some (Wrapped (ErrSyntax ''abc'') ''parsing number from GitHub pull-request URL'')\<rparr>"
proof -
  have p2: "url_Parse ''https://github.com/acme/pull'' =
      Inr \<lparr>Host = ''github.com'', Path = ''/acme/pull''\<rparr>"
    by (simp add: url_eval)
  have p3: "url_Parse ''https://github.com/acme/widgets/issues/42'' =
      Inr \<lparr>Host = ''github.com'', Path = ''/acme/widgets/issues/42''\<rparr>"
    by (simp add: url_eval)
  have p4: "url_Parse ''https://github.com/acme/widgets/pull/abc'' =
      Inr \<lparr>Host = ''github.com'', Path = ''/acme/widgets/pull/abc''\<rparr>"
    by (simp add: url_eval)
  have s2: "[''acme'', ''pull''] =
      Split (TrimLeft (Path \<lparr>Host = ''github.com'', Path = ''/acme/pull''\<rparr>) ''/'') CHR ''/''"
    by (simp add: TrimLeft_def)
  have s3: "[''acme'', ''widgets'', ''issues'', ''42''] =
      Split (TrimLeft (Path \<lparr>Host = ''github.com'', Path = ''/acme/widgets/issues/42''\<rparr>) ''/'') CHR ''/''"
    by (simp add: TrimLeft_def)
  have s4: "[''acme'', ''widgets'', ''pull'', ''abc''] =
      Split (TrimLeft (Path \<lparr>Host = ''github.com'', Path = ''/acme/widgets/pull/abc''\<rparr>) ''/'') CHR ''/''"
    by (simp add: TrimLeft_def)
  have a: "Atoi ''abc'' = (0, Some (ErrSyntax ''abc''))"
    by (simp add: Atoi_def is_digit_def)
  from ParsePR_results_on_failure
      [of url_Parse "''https://github.com/acme/pull''", OF p2 s2]
    ParsePR_results_on_failure
      [of url_Parse "''https://github.com/acme/widgets/issues/42''", OF p3 s3]
    ParsePR_results_on_failure
      [of url_Parse "''https://github.com/acme/widgets/pull/abc''", OF p4 s4,
       of 0 "ErrSyntax ''abc''"] a
  show ?thesis by simp
qed

section \<open>Properties of AddOrUpdate\<close>

subsection \<open>The loop\<close>

lemma for_comments_no_match:
  "\<forall>x\<in>set comments. \<not> f x \<Longrightarrow>
   for_comments c f w ow rp ic comments = (map Call_IsComment comments, None)"
  by (induction comments) auto

lemma for_comments_first_match:
  "find f comments = Some x \<Longrightarrow>
   for_comments c f w ow rp ic comments =
     (map Call_IsComment (takeWhile (\<lambda>y. \<not> f y) comments) @ fst (for_comments c f w ow rp ic [x]),
      snd (for_comments c f w ow rp ic [x]))"
  by (induction comments) (auto split: option.splits prod.splits)

lemma find_accepts: "find f comments = Some x \<Longrightarrow> f x \<and> x \<in> set comments"
  by (induction comments) (auto split: if_splits)

lemma for_comments_edit:
  assumes "find f comments = Some (Some cm)" and "ID cm = Some i"
    and "issues_EditComment c w ow rp i ic = (e, w')"
  shows "for_comments c f w ow rp ic comments =
     (map Call_IsComment (takeWhile (\<lambda>y. \<not> f y) comments) @
        [Call_IsComment (Some cm), Call_EditComment ow rp i ic],
      Some (Return (Wrap e ''updating PR comment''), w'))"
proof -
  from assms(1) have "f (Some cm)"
    by (simp add: find_accepts)
  with assms(2,3) have single: "for_comments c f w ow rp ic [Some cm] =
      ([Call_IsComment (Some cm), Call_EditComment ow rp i ic],
       Some (Return (Wrap e ''updating PR comment''), w'))"
    by simp
  show ?thesis
    by (simp only: for_comments_first_match [OF assms(1), of c w ow rp ic] single fst_conv snd_conv)
qed

lemma for_comments_panic:
  assumes "find f comments = Some x" and "\<not> carries_ID x"
  shows "for_comments c f w ow rp ic comments =
     (map Call_IsComment (takeWhile (\<lambda>y. \<not> f y) comments) @ [Call_IsComment x],
      Some (Panic, w))"
proof -
  from assms(1) have "f x"
    by (simp add: find_accepts)
  with assms(2) have single: "for_comments c f w ow rp ic [x] = ([Call_IsComment x], Some (Panic, w))"
    by (cases x) (auto split: option.splits)
  show ?thesis
    by (simp only: for_comments_first_match [OF assms(1), of c w ow rp ic] single fst_conv snd_conv)
qed

subsection \<open>The paths through AddOrUpdate\<close>

lemma AddOrUpdate_get_fails:
  "prs_Get c w ow rp n = (Inl e, w1) \<Longrightarrow>
   AddOrUpdate c w ow rp n =
     (Return (Some (Wrapped e ''getting pull request'')), w1, [Call_Get ow rp n])"
  by (simp add: AddOrUpdate_def)

lemma AddOrUpdate_body_fails:
  "prs_Get c w ow rp n = (Inr pr, w1) \<Longrightarrow> body c w1 pr = (Inl e, w2) \<Longrightarrow>
   AddOrUpdate c w ow rp n =
     (Return (Some (Wrapped e ''getting comment body'')), w2, [Call_Get ow rp n, Call_body pr])"
  by (simp add: AddOrUpdate_def)

lemma AddOrUpdate_list_fails:
  "prs_Get c w ow rp n = (Inr pr, w1) \<Longrightarrow> body c w1 pr = (Inr b, w2) \<Longrightarrow>
   issues_ListComments c w2 ow rp n = (Inl e, w3) \<Longrightarrow>
   AddOrUpdate c w ow rp n =
     (Return (Some (Wrapped e ''listing PR comments'')), w3,
      [Call_Get ow rp n, Call_body pr, Call_ListComments ow rp n])"
  by (simp add: AddOrUpdate_def)

lemma AddOrUpdate_creates:
  assumes "prs_Get c w ow rp n = (Inr pr, w1)" and "body c w1 pr = (Inr b, w2)"
    and "issues_ListComments c w2 ow rp n = (Inr comments, w3)"
    and "IsComment c = None \<or> (\<exists>f. IsComment c = Some f \<and> (\<forall>x\<in>set comments. \<not> f x))"
    and "issues_CreateComment c w3 ow rp n \<lparr>ID = None, Body = Some b\<rparr> = (e, w4)"
  shows "AddOrUpdate c w ow rp n =
     (Return (Wrap e ''adding PR comment''), w4,
      [Call_Get ow rp n, Call_body pr, Call_ListComments ow rp n] @
      (case IsComment c of None \<Rightarrow> [] | Some f \<Rightarrow> map Call_IsComment comments) @
      [Call_CreateComment ow rp n \<lparr>ID = None, Body = Some b\<rparr>])"
  using assms by (auto simp: AddOrUpdate_def for_comments_no_match)

lemma AddOrUpdate_edits:
  assumes "prs_Get c w ow rp n = (Inr pr, w1)" and "body c w1 pr = (Inr b, w2)"
    and "issues_ListComments c w2 ow rp n = (Inr comments, w3)"
    and "IsComment c = Some f" and "find f comments = Some (Some cm)" and "ID cm = Some i"
    and "issues_EditComment c w3 ow rp i \<lparr>ID = None, Body = Some b\<rparr> = (e, w4)"
  shows "AddOrUpdate c w ow rp n =
     (Return (Wrap e ''updating PR comment''), w4,
      [Call_Get ow rp n, Call_body pr, Call_ListComments ow rp n] @
      map Call_IsComment (takeWhile (\<lambda>x. \<not> f x) comments) @
      [Call_IsComment (Some cm), Call_EditComment ow rp i \<lparr>ID = None, Body = Some b\<rparr>])"
  using assms(1-4) for_comments_edit [OF assms(5,6,7)]
  by (simp add: AddOrUpdate_def)

lemma AddOrUpdate_panics:
  assumes "prs_Get c w ow rp n = (Inr pr, w1)" and "body c w1 pr = (Inr b, w2)"
    and "issues_ListComments c w2 ow rp n = (Inr comments, w3)"
    and "IsComment c = Some f" and "find f comments = Some x" and "\<not> carries_ID x"
  shows "AddOrUpdate c w ow rp n =
     (Panic, w3,
      [Call_Get ow rp n, Call_body pr, Call_ListComments ow rp n] @
      map Call_IsComment (takeWhile (\<lambda>x. \<not> f x) comments) @ [Call_IsComment x])"
  using assms(1-4)
    for_comments_panic [OF assms(5,6), of c w3 ow rp "\<lparr>ID = None, Body = Some b\<rparr>"]
  by (simp add: AddOrUpdate_def)

lemma AddOrUpdate_cases [case_names get_fails body_fails list_fails creates edits panics]:
  obtains e w1 where "prs_Get c w ow rp n = (Inl e, w1)"
  | pr w1 e w2 where "prs_Get c w ow rp n = (Inr pr, w1)" and "body c w1 pr = (Inl e, w2)"
  | pr w1 b w2 e w3 where "prs_Get c w ow rp n = (Inr pr, w1)" and "body c w1 pr = (Inr b, w2)"
      and "issues_ListComments c w2 ow rp n = (Inl e, w3)"
  | pr w1 b w2 comments w3 e w4 where "prs_Get c w ow rp n = (Inr pr, w1)"
      and "body c w1 pr = (Inr b, w2)"
      and "issues_ListComments c w2 ow rp n = (Inr comments, w3)"
      and "IsComment c = None \<or> (\<exists>f. IsComment c = Some f \<and> (\<forall>x\<in>set comments. \<not> f x))"
      and "issues_CreateComment c w3 ow rp n \<lparr>ID = None, Body = Some b\<rparr> = (e, w4)"
  | pr w1 b w2 comments w3 f cm i e w4 where "prs_Get c w ow rp n = (Inr pr, w1)"
      and "body c w1 pr = (Inr b, w2)"
      and "issues_ListComments c w2 ow rp n = (Inr comments, w3)"
      and "IsComment c = Some f" and "find f comments = Some (Some cm)" and "ID cm = Some i"
      and "issues_EditComment c w3 ow rp i \<lparr>ID = None, Body = Some b\<rparr> = (e, w4)"
  | pr w1 b w2 comments w3 f x where "prs_Get c w ow rp n = (Inr pr, w1)"
      and "body c w1 pr = (Inr b, w2)"
      and "issues_ListComments c w2 ow rp n = (Inr comments, w3)"
      and "IsComment c = Some f" and "find f comments = Some x" and "\<not> carries_ID x"
proof -
  obtain r1 w1 where g: "prs_Get c w ow rp n = (r1, w1)"
    by (cases "prs_Get c w ow rp n")
  show thesis
  proof (cases r1)
    case (Inl e)
    with g that(1) show thesis by simp
  next
    case (Inr pr)
    obtain r2 w2 where bd: "body c w1 pr = (r2, w2)"
      by (cases "body c w1 pr")
    show thesis
    proof (cases r2)
      case (Inl e)
      with g Inr bd that(2) show thesis by simp
    next
      case b: (Inr b)
      obtain r3 w3 where l: "issues_ListComments c w2 ow rp n = (r3, w3)"
        by (cases "issues_ListComments c w2 ow rp n")
      show thesis
      proof (cases r3)
        case (Inl e)
        with g Inr bd b l that(3) show thesis by simp
      next
        case cs: (Inr comments)
        obtain e w4 where cr: "issues_CreateComment c w3 ow rp n \<lparr>ID = None, Body = Some b\<rparr> = (e, w4)"
          by (cases "issues_CreateComment c w3 ow rp n \<lparr>ID = None, Body = Some b\<rparr>")
        from g Inr bd b l cs have steps: "prs_Get c w ow rp n = (Inr pr, w1)"
          "body c w1 pr = (Inr b, w2)" "issues_ListComments c w2 ow rp n = (Inr comments, w3)"
          by simp_all
        show thesis
        proof (cases "IsComment c")
          case None
          with steps cr that(4) show thesis by blast
        next
          case m: (Some f)
          show thesis
          proof (cases "find f comments")
            case None
            then have "\<forall>x\<in>set comments. \<not> f x"
              by (simp add: find_None_iff)
            with steps cr m that(4) show thesis by blast
          next
            case fd: (Some x)
            show thesis
            proof (cases "carries_ID x")
              case False
              with steps m fd that(6) show thesis by blast
            next
              case True
              then obtain cm i where x: "x = Some cm" and i: "ID cm = Some i"
                by (cases x) auto
              obtain e' w4' where "issues_EditComment c w3 ow rp i \<lparr>ID = None, Body = Some b\<rparr> = (e', w4')"
                by (cases "issues_EditComment c w3 ow rp i \<lparr>ID = None, Body = Some b\<rparr>")
              with steps m fd x i that(5) show thesis by blast
            qed
          qed
        qed
      qed
    qed
  qed
qed

subsection \<open>The claims about AddOrUpdate\<close>

text \<open>
  In the statements below \<open>comments = skipped @ x # rest\<close> with every comment of
  \<open>skipped\<close> rejected and \<open>x\<close> accepted says that \<open>x\<close> is the first comment of the listing
  that the matcher accepts; \<open>rest\<close> is arbitrary and may hold further matches.
\<close>

lemma first_match:
  assumes "comments = skipped @ x # rest" and "\<forall>y\<in>set skipped. \<not> f y" and "f x"
  shows "find f comments = Some x \<and> takeWhile (\<lambda>y. \<not> f y) comments = skipped"
  using assms(2,3) unfolding assms(1) by (induction skipped) auto

lemma writes_of_matching: "filter is_write (map Call_IsComment xs) = []"
  by (induction xs) auto

lemma stages_of_matching: "map (stage_of \<circ> Call_IsComment) xs = replicate (length xs) 3"
  by (induction xs) auto

lemma matching_stage_filter: "filter (\<lambda>x. stage_of x \<noteq> 3) (map Call_IsComment xs) = []"
  by (induction xs) auto

lemmas fake_eval = fake_Commenter_def is_report_def thread_def thread_without_ID_def

text \<open>
  C1, with the condition the code needs: the pull request is fetched, the body is
  generated and the comments are listed, a matcher is configured, and the first
  comment it accepts carries an ID. Then \<open>AddOrUpdate\<close> asks the matcher about the
  comments in the listed order up to that comment and no further, issues one edit, of
  that comment's ID with the generated body, returns the result of the edit (wrapped
  when it is an error), and never calls create.
\<close>

theorem AddOrUpdate_edits_first_match:
  assumes "prs_Get c w ow rp n = (Inr pr, w1)" and "body c w1 pr = (Inr b, w2)"
    and "issues_ListComments c w2 ow rp n = (Inr comments, w3)"
    and "IsComment c = Some f"
    and "comments = skipped @ Some cm # rest" and "\<forall>x\<in>set skipped. \<not> f x" and "f (Some cm)"
    and "ID cm = Some i"
    and "issues_EditComment c w3 ow rp i \<lparr>ID = None, Body = Some b\<rparr> = (e, w4)"
  shows "AddOrUpdate c w ow rp n =
     (Return (Wrap e ''updating PR comment''), w4,
      [Call_Get ow rp n, Call_body pr, Call_ListComments ow rp n] @
      map Call_IsComment skipped @
      [Call_IsComment (Some cm), Call_EditComment ow rp i \<lparr>ID = None, Body = Some b\<rparr>]) \<and>
     filter is_write (snd (snd (AddOrUpdate c w ow rp n))) =
       [Call_EditComment ow rp i \<lparr>ID = None, Body = Some b\<rparr>]"
proof -
  from first_match [OF assms(5,6,7)]
  have fd: "find f comments = Some (Some cm)" and tw: "takeWhile (\<lambda>y. \<not> f y) comments = skipped"
    by simp_all
  from AddOrUpdate_edits [OF assms(1,2,3,4) fd assms(8,9)] tw
  show ?thesis
    by (simp add: writes_of_matching)
qed

theorem AddOrUpdate_edits_first_match_witness:
  "AddOrUpdate (fake_Commenter (Some is_report) None) thread ''acme'' ''widgets'' 42 =
     (Return None,
      [Some \<lparr>ID = Some 7, Body = Some ''hello''\<rparr>,
       Some \<lparr>ID = Some 8, Body = Some ''new report''\<rparr>,
       Some \<lparr>ID = Some 9, Body = Some ''old report''\<rparr>],
      [Call_Get ''acme'' ''widgets'' 42, Call_body 42, Call_ListComments ''acme'' ''widgets'' 42,
       Call_IsComment (Some \<lparr>ID = Some 7, Body = Some ''hello''\<rparr>),
       Call_IsComment (Some \<lparr>ID = Some 8, Body = Some ''old report''\<rparr>),
       Call_EditComment ''acme'' ''widgets'' 8 \<lparr>ID = None, Body = Some ''new report''\<rparr>])"
proof -
  let ?c = "fake_Commenter (Some is_report) None"
  have g: "prs_Get ?c thread ''acme'' ''widgets'' 42 = (Inr 42, thread)"
    by (simp add: fake_Commenter_def)
  have b: "body ?c thread 42 = (Inr ''new report'', thread)"
    by (simp add: fake_Commenter_def)
  have l: "issues_ListComments ?c thread ''acme'' ''widgets'' 42 = (Inr thread, thread)"
    by (simp add: fake_Commenter_def)
  have m: "IsComment ?c = Some is_report"
    by (simp add: fake_Commenter_def)
  have s: "thread = [Some \<lparr>ID = Some 7, Body = Some ''hello''\<rparr>] @
      Some \<lparr>ID = Some 8, Body = Some ''old report''\<rparr> #
      [Some \<lparr>ID = Some 9, Body = Some ''old report''\<rparr>]"
    by (simp add: thread_def)
  have r: "\<forall>x\<in>set [Some \<lparr>ID = Some 7, Body = Some ''hello''\<rparr>]. \<not> is_report x"
    by (simp add: is_report_def)
  have a: "is_report (Some \<lparr>ID = Some 8, Body = Some ''old report''\<rparr>)"
    by (simp add: is_report_def)
  have i: "ID \<lparr>ID = Some 8, Body = Some ''old report''\<rparr> = Some 8"
    by simp
  have e: "issues_EditComment ?c thread ''acme'' ''widgets'' 8 \<lparr>ID = None, Body = Some ''new report''\<rparr> =
      (None,
       [Some \<lparr>ID = Some 7, Body = Some ''hello''\<rparr>,
        Some \<lparr>ID = Some 8, Body = Some ''new report''\<rparr>,
        Some \<lparr>ID = Some 9, Body = Some ''old report''\<rparr>])"
    by (simp add: fake_Commenter_def thread_def)
  from AddOrUpdate_edits_first_match [OF g b l m s r a i e, THEN conjunct1]
  show ?thesis by simp
qed

text \<open>
  C1 as stated, for every matcher that accepts a listed comment, fails when the first
  accepted comment was listed without an ID: the invocation panics on \<open>*comment.ID\<close>,
  issues no edit and returns nothing.
\<close>

theorem AddOrUpdate_edits_without_ID_counterexample:
  "is_report (Some \<lparr>ID = None, Body = Some ''old report''\<rparr>) \<and>
   Some \<lparr>ID = None, Body = Some ''old report''\<rparr> \<in> set thread_without_ID \<and>
   AddOrUpdate (fake_Commenter (Some is_report) None) thread_without_ID ''acme'' ''widgets'' 42 =
     (Panic, thread_without_ID,
      [Call_Get ''acme'' ''widgets'' 42, Call_body 42, Call_ListComments ''acme'' ''widgets'' 42,
       Call_IsComment (Some \<lparr>ID = Some 7, Body = Some ''hello''\<rparr>),
       Call_IsComment (Some \<lparr>ID = None, Body = Some ''old report''\<rparr>)])"
  by (simp add: AddOrUpdate_def fake_eval)

text \<open>
  C2: after the fetch, the body and the listing succeeded, with no matcher configured
  or with a matcher that rejects every listed comment, \<open>AddOrUpdate\<close> creates one
  comment with the generated body, returns the result of the create, and calls no
  edit. Without a matcher the matcher is never asked; with one it is asked about
  every listed comment.
\<close>

theorem AddOrUpdate_creates_without_match:
  assumes "prs_Get c w ow rp n = (Inr pr, w1)" and "body c w1 pr = (Inr b, w2)"
    and "issues_ListComments c w2 ow rp n = (Inr comments, w3)"
    and "IsComment c = None \<or> (\<exists>f. IsComment c = Some f \<and> (\<forall>x\<in>set comments. \<not> f x))"
    and "issues_CreateComment c w3 ow rp n \<lparr>ID = None, Body = Some b\<rparr> = (e, w4)"
  shows "AddOrUpdate c w ow rp n =
     (Return (Wrap e ''adding PR comment''), w4,
      [Call_Get ow rp n, Call_body pr, Call_ListComments ow rp n] @
      (case IsComment c of None \<Rightarrow> [] | Some f \<Rightarrow> map Call_IsComment comments) @
      [Call_CreateComment ow rp n \<lparr>ID = None, Body = Some b\<rparr>]) \<and>
     filter is_write (snd (snd (AddOrUpdate c w ow rp n))) =
       [Call_CreateComment ow rp n \<lparr>ID = None, Body = Some b\<rparr>]"
  using AddOrUpdate_creates [OF assms]
  by (simp add: writes_of_matching split: option.splits)

theorem AddOrUpdate_creates_without_match_witness:
  "AddOrUpdate (fake_Commenter None None) thread ''acme'' ''widgets'' 42 =
     (Return None,
      thread @ [Some \<lparr>ID = Some 4, Body = Some ''new report''\<rparr>],
      [Call_Get ''acme'' ''widgets'' 42, Call_body 42, Call_ListComments ''acme'' ''widgets'' 42,
       Call_CreateComment ''acme'' ''widgets'' 42 \<lparr>ID = None, Body = Some ''new report''\<rparr>]) \<and>
   AddOrUpdate (fake_Commenter (Some is_report) None)
       [Some \<lparr>ID = Some 7, Body = Some ''hello''\<rparr>] ''acme'' ''widgets'' 42 =
     (Return None,
      [Some \<lparr>ID = Some 7, Body = Some ''hello''\<rparr>,
       Some \<lparr>ID = Some 2, Body = Some ''new report''\<rparr>],
      [Call_Get ''acme'' ''widgets'' 42, Call_body 42, Call_ListComments ''acme'' ''widgets'' 42,
       Call_IsComment (Some \<lparr>ID = Some 7, Body = Some ''hello''\<rparr>),
       Call_CreateComment ''acme'' ''widgets'' 42 \<lparr>ID = None, Body = Some ''new report''\<rparr>])"
proof -
  let ?c = "fake_Commenter None None"
  let ?d = "fake_Commenter (Some is_report) None"
  let ?t = "[Some \<lparr>ID = Some 7, Body = Some ''hello''\<rparr>]"
  have g: "prs_Get ?c thread ''acme'' ''widgets'' 42 = (Inr 42, thread)"
    and b: "body ?c thread 42 = (Inr ''new report'', thread)"
    and l: "issues_ListComments ?c thread ''acme'' ''widgets'' 42 = (Inr thread, thread)"
    and m: "IsComment ?c = None \<or> (\<exists>f. IsComment ?c = Some f \<and> (\<forall>x\<in>set thread. \<not> f x))"
    and e: "issues_CreateComment ?c thread ''acme'' ''widgets'' 42 \<lparr>ID = None, Body = Some ''new report''\<rparr> =
      (None, thread @ [Some \<lparr>ID = Some 4, Body = Some ''new report''\<rparr>])"
    by (simp_all add: fake_Commenter_def thread_def)
  have g': "prs_Get ?d ?t ''acme'' ''widgets'' 42 = (Inr 42, ?t)"
    and b': "body ?d ?t 42 = (Inr ''new report'', ?t)"
    and l': "issues_ListComments ?d ?t ''acme'' ''widgets'' 42 = (Inr ?t, ?t)"
    and m': "IsComment ?d = None \<or> (\<exists>f. IsComment ?d = Some f \<and> (\<forall>x\<in>set ?t. \<not> f x))"
    and e': "issues_CreateComment ?d ?t ''acme'' ''widgets'' 42 \<lparr>ID = None, Body = Some ''new report''\<rparr> =
      (None, ?t @ [Some \<lparr>ID = Some 2, Body = Some ''new report''\<rparr>])"
    by (simp_all add: fake_Commenter_def is_report_def)
  from AddOrUpdate_creates_without_match [OF g b l m e, THEN conjunct1]
    AddOrUpdate_creates_without_match [OF g' b' l' m' e', THEN conjunct1]
  show ?thesis
    by (simp add: fake_Commenter_def)
qed

text \<open>
  C3, with the condition the code needs: every invocation makes at most one write
  (an edit or a create). It makes exactly one when the fetch, the body and the listing
  succeed and the first comment the matcher accepts, if there is a matcher and it
  accepts one, carries an ID. It makes none when the fetch, the body or the listing
  fails.
\<close>

theorem AddOrUpdate_writes:
  "length (filter is_write (snd (snd (AddOrUpdate c w ow rp n)))) \<le> 1 \<and>
   (prs_Get c w ow rp n = (Inr pr, w1) \<and> body c w1 pr = (Inr b, w2) \<and>
    issues_ListComments c w2 ow rp n = (Inr comments, w3) \<and>
    (\<forall>f x. IsComment c = Some f \<and> find f comments = Some x \<longrightarrow> carries_ID x) \<longrightarrow>
      length (filter is_write (snd (snd (AddOrUpdate c w ow rp n)))) = 1) \<and>
   (prs_Get c w ow rp n = (Inl e, w1) \<longrightarrow>
      filter is_write (snd (snd (AddOrUpdate c w ow rp n))) = []) \<and>
   (prs_Get c w ow rp n = (Inr pr, w1) \<and> body c w1 pr = (Inl e, w2) \<longrightarrow>
      filter is_write (snd (snd (AddOrUpdate c w ow rp n))) = []) \<and>
   (prs_Get c w ow rp n = (Inr pr, w1) \<and> body c w1 pr = (Inr b, w2) \<and>
    issues_ListComments c w2 ow rp n = (Inl e, w3) \<longrightarrow>
      filter is_write (snd (snd (AddOrUpdate c w ow rp n))) = [])"
proof (cases rule: AddOrUpdate_cases [of c w ow rp n])
  case (get_fails e' w1')
  then show ?thesis
    by (simp add: AddOrUpdate_get_fails)
next
  case (body_fails pr' w1' e' w2')
  then show ?thesis
    by (auto simp: AddOrUpdate_body_fails)
next
  case (list_fails pr' w1' b' w2' e' w3')
  then show ?thesis
    by (auto simp: AddOrUpdate_list_fails)
next
  case (creates pr' w1' b' w2' comments' w3' e' w4')
  from AddOrUpdate_creates [OF creates] creates(1,2,3) show ?thesis
    by (auto simp: writes_of_matching split: option.splits)
next
  case (edits pr' w1' b' w2' comments' w3' f' cm' i' e' w4')
  from AddOrUpdate_edits [OF edits] edits(1,2,3) show ?thesis
    by (auto simp: writes_of_matching)
next
  case (panics pr' w1' b' w2' comments' w3' f' x')
  from AddOrUpdate_panics [OF panics] panics show ?thesis
    by (auto simp: writes_of_matching)
qed

theorem AddOrUpdate_writes_witness:
  "length (filter is_write (snd (snd
     (AddOrUpdate (fake_Commenter (Some is_report) None) thread ''acme'' ''widgets'' 42)))) = 1 \<and>
   length (filter is_write (snd (snd
     (AddOrUpdate (fake_Commenter None None) thread ''acme'' ''widgets'' 42)))) = 1 \<and>
   filter is_write (snd (snd
     (AddOrUpdate (fake_Commenter (Some is_report) (Some Getting)) thread ''acme'' ''widgets'' 42))) = [] \<and>
   filter is_write (snd (snd
     (AddOrUpdate (fake_Commenter (Some is_report) (Some Generating)) thread ''acme'' ''widgets'' 42))) = [] \<and>
   filter is_write (snd (snd
     (AddOrUpdate (fake_Commenter (Some is_report) (Some Listing)) thread ''acme'' ''widgets'' 42))) = []"
proof -
  have c1: "length (filter is_write (snd (snd
      (AddOrUpdate (fake_Commenter (Some is_report) None) thread ''acme'' ''widgets'' 42)))) = 1"
    using AddOrUpdate_writes [where c = "fake_Commenter (Some is_report) None" and w = thread
        and ow = "''acme''" and rp = "''widgets''" and n = 42 and pr = 42 and ?w1.0 = thread
        and b = "''new report''" and ?w2.0 = thread and comments = thread and ?w3.0 = thread,
        THEN conjunct2, THEN conjunct1]
    by (simp add: fake_eval)
  have c2: "length (filter is_write (snd (snd
      (AddOrUpdate (fake_Commenter None None) thread ''acme'' ''widgets'' 42)))) = 1"
    using AddOrUpdate_writes [where c = "fake_Commenter None None" and w = thread
        and ow = "''acme''" and rp = "''widgets''" and n = 42 and pr = 42 and ?w1.0 = thread
        and b = "''new report''" and ?w2.0 = thread and comments = thread and ?w3.0 = thread,
        THEN conjunct2, THEN conjunct1]
    by (simp add: fake_eval)
  have c3: "filter is_write (snd (snd
      (AddOrUpdate (fake_Commenter (Some is_report) (Some Getting)) thread ''acme'' ''widgets'' 42))) = []"
    using AddOrUpdate_writes [where c = "fake_Commenter (Some is_report) (Some Getting)"
        and w = thread and ow = "''acme''" and rp = "''widgets''" and n = 42
        and e = "Foreign ''404 Not Found''" and ?w1.0 = thread,
        THEN conjunct2, THEN conjunct2, THEN conjunct1]
    by (simp add: fake_eval)
  have c4: "filter is_write (snd (snd
      (AddOrUpdate (fake_Commenter (Some is_report) (Some Generating)) thread ''acme'' ''widgets'' 42))) = []"
    using AddOrUpdate_writes [where c = "fake_Commenter (Some is_report) (Some Generating)"
        and w = thread and ow = "''acme''" and rp = "''widgets''" and n = 42 and pr = 42
        and e = "Foreign ''no report''" and ?w1.0 = thread and ?w2.0 = thread,
        THEN conjunct2, THEN conjunct2, THEN conjunct2, THEN conjunct1]
    by (simp add: fake_eval)
  have c5: "filter is_write (snd (snd
      (AddOrUpdate (fake_Commenter (Some is_report) (Some Listing)) thread ''acme'' ''widgets'' 42))) = []"
    using AddOrUpdate_writes [where c = "fake_Commenter (Some is_report) (Some Listing)"
        and w = thread and ow = "''acme''" and rp = "''widgets''" and n = 42 and pr = 42
        and e = "Foreign ''502 Bad Gateway''" and ?w1.0 = thread and b = "''new report''"
        and ?w2.0 = thread and ?w3.0 = thread,
        THEN conjunct2, THEN conjunct2, THEN conjunct2, THEN conjunct2]
    by (simp add: fake_eval)
  from c1 c2 c3 c4 c5 show ?thesis
    by blast
qed

text \<open>
  C3 as stated fails when the first accepted comment was listed without an ID: the
  fetch, the body and the listing all succeed, and the invocation makes no write.
\<close>

theorem AddOrUpdate_no_write_counterexample:
  "prs_Get (fake_Commenter (Some is_report) None) thread_without_ID ''acme'' ''widgets'' 42 =
     (Inr 42, thread_without_ID) \<and>
   body (fake_Commenter (Some is_report) None) thread_without_ID 42 =
     (Inr ''new report'', thread_without_ID) \<and>
   issues_ListComments (fake_Commenter (Some is_report) None) thread_without_ID ''acme'' ''widgets'' 42 =
     (Inr thread_without_ID, thread_without_ID) \<and>
   filter is_write (snd (snd
     (AddOrUpdate (fake_Commenter (Some is_report) None) thread_without_ID ''acme'' ''widgets'' 42))) = []"
  by (simp add: AddOrUpdate_def fake_eval)

text \<open>
  C4: the calls of an invocation start with the fetch and come in the order fetch,
  body, listing, matching, write, each of fetch, body, listing and write at most once.
  A failing fetch, body or listing ends the invocation with that error under its
  label and with no later call: after a failing fetch the body generator is not
  called. A failing edit or create is returned under its label.
\<close>

theorem AddOrUpdate_steps_in_order:
  "take 1 (snd (snd (AddOrUpdate c w ow rp n))) = [Call_Get ow rp n] \<and>
   sorted (map stage_of (snd (snd (AddOrUpdate c w ow rp n)))) \<and>
   distinct (map stage_of (filter (\<lambda>x. stage_of x \<noteq> 3) (snd (snd (AddOrUpdate c w ow rp n))))) \<and>
   (prs_Get c w ow rp n = (Inl e, w1) \<longrightarrow>
      AddOrUpdate c w ow rp n =
        (Return (Some (Wrapped e ''getting pull request'')), w1, [Call_Get ow rp n])) \<and>
   (prs_Get c w ow rp n = (Inr pr, w1) \<and> body c w1 pr = (Inl e, w2) \<longrightarrow>
      AddOrUpdate c w ow rp n =
        (Return (Some (Wrapped e ''getting comment body'')), w2,
         [Call_Get ow rp n, Call_body pr])) \<and>
   (prs_Get c w ow rp n = (Inr pr, w1) \<and> body c w1 pr = (Inr b, w2) \<and>
    issues_ListComments c w2 ow rp n = (Inl e, w3) \<longrightarrow>
      AddOrUpdate c w ow rp n =
        (Return (Some (Wrapped e ''listing PR comments'')), w3,
         [Call_Get ow rp n, Call_body pr, Call_ListComments ow rp n])) \<and>
   (prs_Get c w ow rp n = (Inr pr, w1) \<and> body c w1 pr = (Inr b, w2) \<and>
    issues_ListComments c w2 ow rp n = (Inr comments, w3) \<and> IsComment c = Some f \<and>
    comments = skipped @ Some cm # rest \<and> (\<forall>x\<in>set skipped. \<not> f x) \<and> f (Some cm) \<and>
    ID cm = Some i \<and>
    issues_EditComment c w3 ow rp i \<lparr>ID = None, Body = Some b\<rparr> = (Some e, w4) \<longrightarrow>
      fst (AddOrUpdate c w ow rp n) = Return (Some (Wrapped e ''updating PR comment''))) \<and>
   (prs_Get c w ow rp n = (Inr pr, w1) \<and> body c w1 pr = (Inr b, w2) \<and>
    issues_ListComments c w2 ow rp n = (Inr comments, w3) \<and>
    (IsComment c = None \<or> (\<exists>f. IsComment c = Some f \<and> (\<forall>x\<in>set comments. \<not> f x))) \<and>
    issues_CreateComment c w3 ow rp n \<lparr>ID = None, Body = Some b\<rparr> = (Some e, w4) \<longrightarrow>
      fst (AddOrUpdate c w ow rp n) = Return (Some (Wrapped e ''adding PR comment'')))"
proof -
  have order: "take 1 (snd (snd (AddOrUpdate c w ow rp n))) = [Call_Get ow rp n] \<and>
      sorted (map stage_of (snd (snd (AddOrUpdate c w ow rp n)))) \<and>
      distinct (map stage_of (filter (\<lambda>x. stage_of x \<noteq> 3) (snd (snd (AddOrUpdate c w ow rp n)))))"
  proof (cases rule: AddOrUpdate_cases [of c w ow rp n])
    case (get_fails e' w1')
    then show ?thesis
      by (simp add: AddOrUpdate_get_fails)
  next
    case (body_fails pr' w1' e' w2')
    then show ?thesis
      by (simp add: AddOrUpdate_body_fails)
  next
    case (list_fails pr' w1' b' w2' e' w3')
    then show ?thesis
      by (simp add: AddOrUpdate_list_fails)
  next
    case (creates pr' w1' b' w2' comments' w3' e' w4')
    from AddOrUpdate_creates [OF creates] show ?thesis
      by (auto simp: stages_of_matching matching_stage_filter sorted_append split: option.splits)
  next
    case (edits pr' w1' b' w2' comments' w3' f' cm' i' e' w4')
    from AddOrUpdate_edits [OF edits] show ?thesis
      by (auto simp: stages_of_matching matching_stage_filter sorted_append)
  next
    case (panics pr' w1' b' w2' comments' w3' f' x')
    from AddOrUpdate_panics [OF panics] show ?thesis
      by (auto simp: stages_of_matching matching_stage_filter sorted_append)
  qed
  have edit: "fst (AddOrUpdate c w ow rp n) = Return (Some (Wrapped e ''updating PR comment''))"
    if "prs_Get c w ow rp n = (Inr pr, w1)" "body c w1 pr = (Inr b, w2)"
      "issues_ListComments c w2 ow rp n = (Inr comments, w3)" "IsComment c = Some f"
      "comments = skipped @ Some cm # rest" "\<forall>x\<in>set skipped. \<not> f x" "f (Some cm)"
      "ID cm = Some i"
      "issues_EditComment c w3 ow rp i \<lparr>ID = None, Body = Some b\<rparr> = (Some e, w4)"
  proof -
    from first_match [OF that(5,6,7)] have "find f comments = Some (Some cm)"
      by simp
    from AddOrUpdate_edits [OF that(1,2,3,4) this that(8,9)] show ?thesis
      by simp
  qed
  have create: "fst (AddOrUpdate c w ow rp n) = Return (Some (Wrapped e ''adding PR comment''))"
    if "prs_Get c w ow rp n = (Inr pr, w1)" "body c w1 pr = (Inr b, w2)"
      "issues_ListComments c w2 ow rp n = (Inr comments, w3)"
      "IsComment c = None \<or> (\<exists>f. IsComment c = Some f \<and> (\<forall>x\<in>set comments. \<not> f x))"
      "issues_CreateComment c w3 ow rp n \<lparr>ID = None, Body = Some b\<rparr> = (Some e, w4)"
    using AddOrUpdate_creates [OF that] by simp
  from order edit create show ?thesis
    by (simp add: AddOrUpdate_get_fails AddOrUpdate_body_fails AddOrUpdate_list_fails)
qed

theorem AddOrUpdate_steps_in_order_witness:
  "AddOrUpdate (fake_Commenter (Some is_report) (Some Getting)) thread ''acme'' ''widgets'' 42 =
     (Return (Some (Wrapped (Foreign ''404 Not Found'') ''getting pull request'')), thread,
      [Call_Get ''acme'' ''widgets'' 42]) \<and>
   AddOrUpdate (fake_Commenter (Some is_report) (Some Generating)) thread ''acme'' ''widgets'' 42 =
     (Return (Some (Wrapped (Foreign ''no report'') ''getting comment body'')), thread,
      [Call_Get ''acme'' ''widgets'' 42, Call_body 42]) \<and>
   AddOrUpdate (fake_Commenter (Some is_report) (Some Listing)) thread ''acme'' ''widgets'' 42 =
     (Return (Some (Wrapped (Foreign ''502 Bad Gateway'') ''listing PR comments'')), thread,
      [Call_Get ''acme'' ''widgets'' 42, Call_body 42, Call_ListComments ''acme'' ''widgets'' 42]) \<and>
   fst (AddOrUpdate (fake_Commenter (Some is_report) (Some Updating)) thread ''acme'' ''widgets'' 42) =
     Return (Some (Wrapped (Foreign ''403 Forbidden'') ''updating PR comment'')) \<and>
   fst (AddOrUpdate (fake_Commenter None (Some Adding)) thread ''acme'' ''widgets'' 42) =
     Return (Some (Wrapped (Foreign ''403 Forbidden'') ''adding PR comment'')) \<and>
   take 1 (snd (snd
     (AddOrUpdate (fake_Commenter (Some is_report) None) thread ''acme'' ''widgets'' 42))) =
     [Call_Get ''acme'' ''widgets'' 42]"
proof -
  have c1: "AddOrUpdate (fake_Commenter (Some is_report) (Some Getting)) thread ''acme'' ''widgets'' 42 =
     (Return (Some (Wrapped (Foreign ''404 Not Found'') ''getting pull request'')), thread,
      [Call_Get ''acme'' ''widgets'' 42])"
    using AddOrUpdate_steps_in_order [where c = "fake_Commenter (Some is_report) (Some Getting)"
        and w = thread and ow = "''acme''" and rp = "''widgets''" and n = 42
        and e = "Foreign ''404 Not Found''" and ?w1.0 = thread]
    by (simp add: fake_eval)
  have c2: "AddOrUpdate (fake_Commenter (Some is_report) (Some Generating)) thread ''acme'' ''widgets'' 42 =
     (Return (Some (Wrapped (Foreign ''no report'') ''getting comment body'')), thread,
      [Call_Get ''acme'' ''widgets'' 42, Call_body 42])"
    using AddOrUpdate_steps_in_order [where c = "fake_Commenter (Some is_report) (Some Generating)"
        and w = thread and ow = "''acme''" and rp = "''widgets''" and n = 42 and pr = 42
        and e = "Foreign ''no report''" and ?w1.0 = thread and ?w2.0 = thread]
    by (simp add: fake_eval)
  have c3: "AddOrUpdate (fake_Commenter (Some is_report) (Some Listing)) thread ''acme'' ''widgets'' 42 =
     (Return (Some (Wrapped (Foreign ''502 Bad Gateway'') ''listing PR comments'')), thread,
      [Call_Get ''acme'' ''widgets'' 42, Call_body 42, Call_ListComments ''acme'' ''widgets'' 42])"
    using AddOrUpdate_steps_in_order [where c = "fake_Commenter (Some is_report) (Some Listing)"
        and w = thread and ow = "''acme''" and rp = "''widgets''" and n = 42 and pr = 42
        and e = "Foreign ''502 Bad Gateway''" and ?w1.0 = thread and b = "''new report''"
        and ?w2.0 = thread and ?w3.0 = thread]
    by (simp add: fake_eval)
  have c4: "fst (AddOrUpdate (fake_Commenter (Some is_report) (Some Updating)) thread ''acme'' ''widgets'' 42) =
     Return (Some (Wrapped (Foreign ''403 Forbidden'') ''updating PR comment''))"
    using AddOrUpdate_steps_in_order [where c = "fake_Commenter (Some is_report) (Some Updating)"
        and w = thread and ow = "''acme''" and rp = "''widgets''" and n = 42 and pr = 42
        and e = "Foreign ''403 Forbidden''" and ?w1.0 = thread and b = "''new report''"
        and ?w2.0 = thread and ?w3.0 = thread and ?w4.0 = thread and comments = thread
        and f = is_report and skipped = "[Some \<lparr>ID = Some 7, Body = Some ''hello''\<rparr>]"
        and cm = "\<lparr>ID = Some 8, Body = Some ''old report''\<rparr>"
        and rest = "[Some \<lparr>ID = Some 9, Body = Some ''old report''\<rparr>]" and i = 8]
    by (simp add: fake_eval)
  have c5: "fst (AddOrUpdate (fake_Commenter None (Some Adding)) thread ''acme'' ''widgets'' 42) =
     Return (Some (Wrapped (Foreign ''403 Forbidden'') ''adding PR comment''))"
    using AddOrUpdate_steps_in_order [where c = "fake_Commenter None (Some Adding)"
        and w = thread and ow = "''acme''" and rp = "''widgets''" and n = 42 and pr = 42
        and e = "Foreign ''403 Forbidden''" and ?w1.0 = thread and b = "''new report''"
        and ?w2.0 = thread and ?w3.0 = thread and ?w4.0 = thread and comments = thread]
    by (simp add: fake_eval)
  have c6: "take 1 (snd (snd
     (AddOrUpdate (fake_Commenter (Some is_report) None) thread ''acme'' ''widgets'' 42))) =
     [Call_Get ''acme'' ''widgets'' 42]"
    using AddOrUpdate_steps_in_order [where c = "fake_Commenter (Some is_report) None"
        and w = thread and ow = "''acme''" and rp = "''widgets''" and n = 42, THEN conjunct1]
    by simp
  from c1 c2 c3 c4 c5 c6 show ?thesis
    by blast
qed

text \<open>
  C8, with the comment the code dereferences: \<open>*comment.ID\<close> is not guarded, and it is
  the first comment the matcher accepts that decides. An invocation panics exactly
  when the listing succeeded, a matcher is configured and the first comment it accepts
  carries no ID; after a successful listing with a matcher it is free of the panic if
  and only if the first accepted comment, when there is one, carries an ID. So it is
  free of the panic when every accepted comment carries an ID, and a first match
  without an ID ends the invocation in the panic, after the matcher calls and with no
  edit and no returned error.
\<close>

theorem AddOrUpdate_nil_ID:
  "(fst (AddOrUpdate c w ow rp n) = Panic \<longleftrightarrow>
      (\<exists>pr w1 b w2 comments w3 f x.
         prs_Get c w ow rp n = (Inr pr, w1) \<and> body c w1 pr = (Inr b, w2) \<and>
         issues_ListComments c w2 ow rp n = (Inr comments, w3) \<and> IsComment c = Some f \<and>
         find f comments = Some x \<and> \<not> carries_ID x)) \<and>
   (prs_Get c w ow rp n = (Inr pr, w1) \<and> body c w1 pr = (Inr b, w2) \<and>
    issues_ListComments c w2 ow rp n = (Inr comments, w3) \<and> IsComment c = Some f \<longrightarrow>
      (fst (AddOrUpdate c w ow rp n) \<noteq> Panic \<longleftrightarrow>
         (\<forall>x. find f comments = Some x \<longrightarrow> carries_ID x))) \<and>
   (prs_Get c w ow rp n = (Inr pr, w1) \<and> body c w1 pr = (Inr b, w2) \<and>
    issues_ListComments c w2 ow rp n = (Inr comments, w3) \<and> IsComment c = Some f \<and>
    (\<forall>x\<in>set comments. f x \<longrightarrow> carries_ID x) \<longrightarrow>
      fst (AddOrUpdate c w ow rp n) \<noteq> Panic) \<and>
   (prs_Get c w ow rp n = (Inr pr, w1) \<and> body c w1 pr = (Inr b, w2) \<and>
    issues_ListComments c w2 ow rp n = (Inr comments, w3) \<and> IsComment c = Some f \<and>
    comments = skipped @ x # rest \<and> (\<forall>y\<in>set skipped. \<not> f y) \<and> f x \<and> \<not> carries_ID x \<longrightarrow>
      AddOrUpdate c w ow rp n =
        (Panic, w3,
         [Call_Get ow rp n, Call_body pr, Call_ListComments ow rp n] @
         map Call_IsComment skipped @ [Call_IsComment x]))"
proof -
  have iff: "fst (AddOrUpdate c w ow rp n) = Panic \<longleftrightarrow>
      (\<exists>pr w1 b w2 comments w3 f x.
         prs_Get c w ow rp n = (Inr pr, w1) \<and> body c w1 pr = (Inr b, w2) \<and>
         issues_ListComments c w2 ow rp n = (Inr comments, w3) \<and> IsComment c = Some f \<and>
         find f comments = Some x \<and> \<not> carries_ID x)"
  proof (cases rule: AddOrUpdate_cases [of c w ow rp n])
    case (get_fails e' w1')
    then show ?thesis
      by (simp add: AddOrUpdate_get_fails)
  next
    case (body_fails pr' w1' e' w2')
    then show ?thesis
      by (auto simp: AddOrUpdate_body_fails)
  next
    case (list_fails pr' w1' b' w2' e' w3')
    then show ?thesis
      by (auto simp: AddOrUpdate_list_fails)
  next
    case (creates pr' w1' b' w2' comments' w3' e' w4')
    from AddOrUpdate_creates [OF creates] creates(1,2,3,4) show ?thesis
      by (auto dest: find_accepts)
  next
    case (edits pr' w1' b' w2' comments' w3' f' cm' i' e' w4')
    from AddOrUpdate_edits [OF edits] edits(1-6) show ?thesis
      by auto
  next
    case (panics pr' w1' b' w2' comments' w3' f' x')
    from AddOrUpdate_panics [OF panics] panics show ?thesis
      by auto
  qed
  have first: "fst (AddOrUpdate c w ow rp n) \<noteq> Panic \<longleftrightarrow>
      (\<forall>x. find f comments = Some x \<longrightarrow> carries_ID x)"
    if "prs_Get c w ow rp n = (Inr pr, w1)" "body c w1 pr = (Inr b, w2)"
      "issues_ListComments c w2 ow rp n = (Inr comments, w3)" "IsComment c = Some f"
    using that unfolding iff by auto
  have safe: "fst (AddOrUpdate c w ow rp n) \<noteq> Panic"
    if "prs_Get c w ow rp n = (Inr pr, w1)" "body c w1 pr = (Inr b, w2)"
      "issues_ListComments c w2 ow rp n = (Inr comments, w3)" "IsComment c = Some f"
      "\<forall>x\<in>set comments. f x \<longrightarrow> carries_ID x"
    using that unfolding iff by (auto dest: find_accepts)
  have unsafe: "AddOrUpdate c w ow rp n =
        (Panic, w3,
         [Call_Get ow rp n, Call_body pr, Call_ListComments ow rp n] @
         map Call_IsComment skipped @ [Call_IsComment x])"
    if "prs_Get c w ow rp n = (Inr pr, w1)" "body c w1 pr = (Inr b, w2)"
      "issues_ListComments c w2 ow rp n = (Inr comments, w3)" "IsComment c = Some f"
      "comments = skipped @ x # rest" "\<forall>y\<in>set skipped. \<not> f y" "f x" "\<not> carries_ID x"
  proof -
    from first_match [OF that(5,6,7)]
    have fd: "find f comments = Some x" and tw: "takeWhile (\<lambda>y. \<not> f y) comments = skipped"
      by simp_all
    from AddOrUpdate_panics [OF that(1,2,3,4) fd that(8)] tw show ?thesis
      by simp
  qed
  from iff first safe unsafe show ?thesis
    by blast
qed

theorem AddOrUpdate_nil_ID_witness:
  "fst (AddOrUpdate (fake_Commenter (Some is_report) None) thread ''acme'' ''widgets'' 42) \<noteq> Panic \<and>
   AddOrUpdate (fake_Commenter (Some is_report) None) thread_without_ID ''acme'' ''widgets'' 42 =
     (Panic, thread_without_ID,
      [Call_Get ''acme'' ''widgets'' 42, Call_body 42, Call_ListComments ''acme'' ''widgets'' 42,
       Call_IsComment (Some \<lparr>ID = Some 7, Body = Some ''hello''\<rparr>),
       Call_IsComment (Some \<lparr>ID = None, Body = Some ''old report''\<rparr>)]) \<and>
   AddOrUpdate (fake_Commenter (Some (\<lambda>x. True)) None) [None] ''acme'' ''widgets'' 42 =
     (Panic, [None],
      [Call_Get ''acme'' ''widgets'' 42, Call_body 42, Call_ListComments ''acme'' ''widgets'' 42,
       Call_IsComment None]) \<and>
   fst (AddOrUpdate (fake_Commenter (Some (\<lambda>x. True)) None) thread_without_ID
     ''acme'' ''widgets'' 42) \<noteq> Panic"
proof -
  have c1: "fst (AddOrUpdate (fake_Commenter (Some is_report) None) thread ''acme'' ''widgets'' 42) \<noteq> Panic"
    using AddOrUpdate_nil_ID [where c = "fake_Commenter (Some is_report) None"
        and w = thread and ow = "''acme''" and rp = "''widgets''" and n = 42 and pr = 42
        and ?w1.0 = thread and b = "''new report''" and ?w2.0 = thread and ?w3.0 = thread
        and comments = thread and f = is_report, THEN conjunct2, THEN conjunct2, THEN conjunct1]
    by (simp add: fake_eval)
  have c2: "AddOrUpdate (fake_Commenter (Some is_report) None) thread_without_ID ''acme'' ''widgets'' 42 =
     (Panic, thread_without_ID,
      [Call_Get ''acme'' ''widgets'' 42, Call_body 42, Call_ListComments ''acme'' ''widgets'' 42,
       Call_IsComment (Some \<lparr>ID = Some 7, Body = Some ''hello''\<rparr>),
       Call_IsComment (Some \<lparr>ID = None, Body = Some ''old report''\<rparr>)])"
    using AddOrUpdate_nil_ID [where c = "fake_Commenter (Some is_report) None"
        and w = thread_without_ID and ow = "''acme''" and rp = "''widgets''" and n = 42 and pr = 42
        and ?w1.0 = thread_without_ID and b = "''new report''" and ?w2.0 = thread_without_ID
        and ?w3.0 = thread_without_ID and comments = thread_without_ID and f = is_report
        and skipped = "[Some \<lparr>ID = Some 7, Body = Some ''hello''\<rparr>]"
        and x = "Some \<lparr>ID = None, Body = Some ''old report''\<rparr>"
        and rest = "[Some \<lparr>ID = Some 9, Body = Some ''old report''\<rparr>]",
        THEN conjunct2, THEN conjunct2, THEN conjunct2]
    by (simp add: fake_eval)
  have c3: "AddOrUpdate (fake_Commenter (Some (\<lambda>x. True)) None) [None] ''acme'' ''widgets'' 42 =
     (Panic, [None],
      [Call_Get ''acme'' ''widgets'' 42, Call_body 42, Call_ListComments ''acme'' ''widgets'' 42,
       Call_IsComment None])"
    using AddOrUpdate_nil_ID [where c = "fake_Commenter (Some (\<lambda>x. True)) None"
        and w = "[None]" and ow = "''acme''" and rp = "''widgets''" and n = 42 and pr = 42
        and ?w1.0 = "[None]" and b = "''new report''" and ?w2.0 = "[None]"
        and ?w3.0 = "[None]" and comments = "[None]" and f = "\<lambda>x. True"
        and skipped = "[]" and x = None and rest = "[]",
        THEN conjunct2, THEN conjunct2, THEN conjunct2]
    by (simp add: fake_eval)
  have c4: "fst (AddOrUpdate (fake_Commenter (Some (\<lambda>x. True)) None) thread_without_ID
     ''acme'' ''widgets'' 42) \<noteq> Panic"
    using AddOrUpdate_nil_ID [where c = "fake_Commenter (Some (\<lambda>x. True)) None"
        and w = thread_without_ID and ow = "''acme''" and rp = "''widgets''" and n = 42 and pr = 42
        and ?w1.0 = thread_without_ID and b = "''new report''" and ?w2.0 = thread_without_ID
        and ?w3.0 = thread_without_ID and comments = thread_without_ID and f = "\<lambda>x. True",
        THEN conjunct2, THEN conjunct1]
    by (simp add: fake_eval)
  from c1 c2 c3 c4 show ?thesis
    by blast
qed

text \<open>
  C8 as stated, that freedom from the panic needs every accepted comment to carry an
  ID, fails when a comment without an ID is accepted after the first match: a matcher
  that accepts every comment of the thread accepts the one listed without an ID, and
  the invocation edits the first comment and returns nil.
\<close>

theorem AddOrUpdate_later_match_without_ID_counterexample:
  "Some \<lparr>ID = None, Body = Some ''old report''\<rparr> \<in> set thread_without_ID \<and>
   \<not> carries_ID (Some \<lparr>ID = None, Body = Some ''old report''\<rparr>) \<and>
   AddOrUpdate (fake_Commenter (Some (\<lambda>x. True)) None) thread_without_ID ''acme'' ''widgets'' 42 =
     (Return None,
      [Some \<lparr>ID = Some 7, Body = Some ''new report''\<rparr>,
       Some \<lparr>ID = None, Body = Some ''old report''\<rparr>,
       Some \<lparr>ID = Some 9, Body = Some ''old report''\<rparr>],
      [Call_Get ''acme'' ''widgets'' 42, Call_body 42, Call_ListComments ''acme'' ''widgets'' 42,
       Call_IsComment (Some \<lparr>ID = Some 7, Body = Some ''hello''\<rparr>),
       Call_EditComment ''acme'' ''widgets'' 7 \<lparr>ID = None, Body = Some ''new report''\<rparr>])"
  by (simp add: AddOrUpdate_def fake_eval)

end
